theory Spec2Isabelle
  imports Main "HOL-Library.Word"
begin

unbundle bit_operations_syntax

section \<open>The schema model read by the Dart emitter\<close>

text \<open>
  The emitter \<^verbatim>\<open>src/lcmgen/emit_dart.c\<close> reads the structures declared in
  \<^verbatim>\<open>lcmgen.h\<close>. Only the fields the emitter touches are kept. C strings are
  \<open>string\<close>s (without the terminating NUL); a pointer that may be \<open>NULL\<close>
  (a comment) is an \<open>option\<close>; a \<open>GPtrArray\<close> is a list.
\<close>

record lcm_typename =
  tn_lctypename :: string
  tn_package :: string
  tn_shortname :: string

record lcm_dimension =
  ld_size :: string

record lcm_member =
  lm_type :: lcm_typename
  lm_membername :: string
  lm_dimensions :: "lcm_dimension list"
  lm_comment :: "string option"

record lcm_constant =
  lc_lctypename :: string
  lc_membername :: string
  lc_val_str :: string
  lc_comment :: "string option"

record lcm_struct =
  ls_structname :: lcm_typename
  ls_members :: "lcm_member list"
  ls_constants :: "lcm_constant list"
  ls_lcmfile :: string
  ls_hash :: "64 word"
  ls_comment :: "string option"

section \<open>Text emission\<close>

definition NL :: string where
  "NL = [CHR 0x0A]"

definition indent_str :: "nat \<Rightarrow> string" where
  "indent_str n = replicate (2 * n) (CHR '' '')"

definition emit_start :: "nat \<Rightarrow> string \<Rightarrow> string" where
  "emit_start n s = indent_str n @ s"

definition emit_continue :: "string \<Rightarrow> string" where
  "emit_continue s = s"

definition emit_end :: "string \<Rightarrow> string" where
  "emit_end s = s @ NL"

definition emit :: "nat \<Rightarrow> string \<Rightarrow> string" where
  "emit n s = indent_str n @ s @ NL"

text \<open>\<^verbatim>\<open>%d\<close> of a loop counter.\<close>

definition digit_char :: "nat \<Rightarrow> char" where
  "digit_char d = char_of (48 + d)"

fun show_nat :: "nat \<Rightarrow> string" where
  "show_nat n = (if n < 10 then [digit_char n] else show_nat (n div 10) @ [digit_char (n mod 10)])"

declare show_nat.simps [simp del]

text \<open>\<^verbatim>\<open>%016PRIx64\<close>: sixteen lower-case hexadecimal digits, most significant first.\<close>

definition hex_char :: "nat \<Rightarrow> char" where
  "hex_char d = (if d < 10 then char_of (48 + d) else char_of (87 + d))"

definition hex16 :: "64 word \<Rightarrow> string" where
  "hex16 w = map (\<lambda>i. hex_char (unat (drop_bit (4 * i) w AND 0xF))) (rev [0..<16])"

section \<open>Names\<close>

definition dots_to_slashes :: "string \<Rightarrow> string" where
  "dots_to_slashes s = map (\<lambda>c. if c = CHR ''.'' then CHR ''/'' else c) s"

text \<open>\<^verbatim>\<open>toupper\<close> in the C locale.\<close>

definition toupper :: "char \<Rightarrow> char" where
  "toupper c = (let n = (of_char c :: nat) in if 97 \<le> n \<and> n \<le> 122 then char_of (n - 32) else c)"

text \<open>
  The loop of \<^verbatim>\<open>to_pascal_case\<close>; the flag is \<^verbatim>\<open>capitalize_next\<close>, the
  result the characters stored into \<^verbatim>\<open>result\<close>.
\<close>

fun pascal_loop :: "bool \<Rightarrow> string \<Rightarrow> string" where
  "pascal_loop cap [] = []"
| "pascal_loop cap (c # cs) =
     (if c = CHR ''_'' then pascal_loop True cs
      else if cap then toupper c # pascal_loop False cs
      else c # pascal_loop False cs)"

definition to_pascal_case :: "string \<Rightarrow> string" where
  "to_pascal_case s = pascal_loop True s"

definition map_type_dart :: "string \<Rightarrow> string" where
  "map_type_dart type_name =
     (if type_name = ''int8_t'' then ''int''
      else if type_name = ''int16_t'' then ''int''
      else if type_name = ''int32_t'' then ''int''
      else if type_name = ''int64_t'' then ''int''
      else if type_name = ''byte'' then ''int''
      else if type_name = ''float'' then ''double''
      else if type_name = ''double'' then ''double''
      else if type_name = ''string'' then ''String''
      else if type_name = ''boolean'' then ''bool''
      else type_name)"

text \<open>The nine type names the emitter compares against.\<close>

definition primitive_names :: "string list" where
  "primitive_names = [''int8_t'', ''int16_t'', ''int32_t'', ''int64_t'', ''byte'',
     ''float'', ''double'', ''boolean'', ''string'']"

section \<open>Codec statements for one value\<close>

definition emit_encode_one :: "string \<Rightarrow> string \<Rightarrow> nat \<Rightarrow> string" where
  "emit_encode_one type_name accessor indent =
     (if type_name = ''byte'' then emit indent (''buf.putUint8('' @ accessor @ '');'')
      else if type_name = ''int8_t'' then emit indent (''buf.putInt8('' @ accessor @ '');'')
      else if type_name = ''int16_t'' then emit indent (''buf.putInt16('' @ accessor @ '');'')
      else if type_name = ''int32_t'' then emit indent (''buf.putInt32('' @ accessor @ '');'')
      else if type_name = ''int64_t'' then emit indent (''buf.putInt64('' @ accessor @ '');'')
      else if type_name = ''float'' then emit indent (''buf.putFloat32('' @ accessor @ '');'')
      else if type_name = ''double'' then emit indent (''buf.putFloat64('' @ accessor @ '');'')
      else if type_name = ''string'' then
        emit indent ''{''
        @ emit (indent + 1) (''final bytes = utf8.encode('' @ accessor @ '');'')
        @ emit (indent + 1) ''buf.putUint32(bytes.length + 1);''
        @ emit (indent + 1) ''buf.putUint8List(bytes);''
        @ emit (indent + 1) ''buf.putUint8(0);''
        @ emit indent ''}''
      else if type_name = ''boolean'' then
        emit indent (''buf.putUint8('' @ accessor @ '' ? 1 : 0);'')
      else emit indent (accessor @ ''.encode(buf);''))"

definition emit_decode_one :: "string \<Rightarrow> string \<Rightarrow> nat \<Rightarrow> string" where
  "emit_decode_one type_name accessor indent =
     (if type_name = ''byte'' then emit indent (accessor @ ''buf.getUint8();'')
      else if type_name = ''int8_t'' then emit indent (accessor @ ''buf.getInt8();'')
      else if type_name = ''int16_t'' then emit indent (accessor @ ''buf.getInt16();'')
      else if type_name = ''int32_t'' then emit indent (accessor @ ''buf.getInt32();'')
      else if type_name = ''int64_t'' then emit indent (accessor @ ''buf.getInt64();'')
      else if type_name = ''float'' then emit indent (accessor @ ''buf.getFloat32();'')
      else if type_name = ''double'' then emit indent (accessor @ ''buf.getFloat64();'')
      else if type_name = ''string'' then
        emit indent ''{''
        @ emit (indent + 1) ''final len = buf.getUint32();''
        @ emit (indent + 1) ''final bytes = buf.getUint8List(len - 1);''
        @ emit (indent + 1) ''buf.getUint8(); // null terminator''
        @ emit (indent + 1) (accessor @ ''utf8.decode(bytes);'')
        @ emit indent ''}''
      else if type_name = ''boolean'' then emit indent (accessor @ ''buf.getUint8() != 0;'')
      else emit indent (accessor @ map_type_dart type_name @ ''.decode(buf);''))"

section \<open>The fingerprint\<close>

text \<open>
  \<^verbatim>\<open>int64_t fingerprint = (ls->hash << 1) + ((ls->hash >> 63) & 1);\<close> on the
  two's-complement 64-bit value: the left shift drops the top bit, the right shift of the
  signed value is arithmetic.
\<close>

definition fingerprint :: "64 word \<Rightarrow> 64 word" where
  "fingerprint h = push_bit 1 h + (signed_drop_bit 63 h AND 1)"

section \<open>One output unit\<close>

text \<open>
  \<^verbatim>\<open>g_strsplit(comment, "\n", 0)\<close>: the pieces between newlines; splitting the
  empty string gives no piece at all.
\<close>

primrec split_acc :: "string \<Rightarrow> string \<Rightarrow> string list" where
  "split_acc cur [] = [rev cur]"
| "split_acc cur (c # cs) =
     (if c = CHR 0x0A then rev cur # split_acc [] cs else split_acc (c # cur) cs)"

definition g_strsplit_nl :: "string \<Rightarrow> string list" where
  "g_strsplit_nl s = (if s = [] then [] else split_acc [] s)"

definition emit_comment :: "nat \<Rightarrow> string option \<Rightarrow> string" where
  "emit_comment indent comment =
     (case comment of
        None \<Rightarrow> []
      | Some c \<Rightarrow>
          concat (map (\<lambda>l. if l \<noteq> [] then emit indent (''/// '' @ l) else emit indent ''///'')
                      (g_strsplit_nl c)))"

text \<open>
  \<^verbatim>\<open>emit_struct\<close> writes the unit from top to bottom. The text it writes is split
  here at the comments that head its parts; \<open>emit_struct_text\<close> puts the parts back in
  the order of the source.
\<close>

definition emit_preamble :: string where
  "emit_preamble =
     ''// LCM type definitions'' @ NL
     @ ''// This file automatically generated by lcm-gen.'' @ NL
     @ ''// DO NOT MODIFY BY HAND!!!!'' @ NL
     @ NL
     @ emit 0 ''import 'dart:convert';''
     @ emit 0 ''import 'dart:typed_data';''
     @ emit 0 ''import 'package:lcm_dart/lcm_dart.dart';''
     @ NL"

definition class_name :: "lcm_struct \<Rightarrow> string" where
  "class_name ls = to_pascal_case (tn_shortname (ls_structname ls))"

definition emit_class_open :: "lcm_struct \<Rightarrow> string" where
  "emit_class_open ls =
     emit_comment 0 (ls_comment ls)
     @ emit 0 (''class '' @ class_name ls @ '' implements LcmMessage {'')"

definition emit_fingerprint_const :: "lcm_struct \<Rightarrow> string" where
  "emit_fingerprint_const ls =
     emit 1 (''static const int LCM_FINGERPRINT = 0x'' @ hex16 (fingerprint (ls_hash ls)) @ '';'')
     @ NL"

definition emit_constants :: "lcm_struct \<Rightarrow> string" where
  "emit_constants ls =
     concat (map (\<lambda>lc.
        emit_comment 1 (lc_comment lc)
        @ emit 1 (''static const '' @ map_type_dart (lc_lctypename lc) @ '' '' @ lc_membername lc
                  @ '' = '' @ lc_val_str lc @ '';''))
        (ls_constants ls))
     @ (if length (ls_constants ls) > 0 then NL else [])"

definition emit_field :: "lcm_member \<Rightarrow> string" where
  "emit_field lm =
     emit_comment 1 (lm_comment lm)
     @ (if length (lm_dimensions lm) = 0 then
          emit 1 (map_type_dart (tn_lctypename (lm_type lm)) @ '' '' @ lm_membername lm @ '';'')
        else
          emit_start 1 ''List''
          @ concat (map (\<lambda>j. emit_continue ''<'') [0..<length (lm_dimensions lm)])
          @ emit_continue (map_type_dart (tn_lctypename (lm_type lm)))
          @ concat (map (\<lambda>j. emit_continue ''>'') [0..<length (lm_dimensions lm)])
          @ emit_end ('' '' @ lm_membername lm @ '';''))"

definition emit_fields :: "lcm_struct \<Rightarrow> string" where
  "emit_fields ls = concat (map emit_field (ls_members ls)) @ NL"

definition emit_constructor :: "lcm_struct \<Rightarrow> string" where
  "emit_constructor ls =
     emit 1 (class_name ls @ ''({'')
     @ concat (map (\<lambda>lm.
         if length (lm_dimensions lm) = 0 then emit 2 (''required this.'' @ lm_membername lm @ '','')
         else emit 2 (''required this.'' @ lm_membername lm @ '',''))
         (ls_members ls))
     @ emit 1 ''});''
     @ NL"

definition emit_fingerprint_getter :: string where
  "emit_fingerprint_getter =
     emit 1 ''@override''
     @ emit 1 ''int get lcmFingerprint => LCM_FINGERPRINT;''
     @ NL"

text \<open>The body of the loop over the members inside the encode method.\<close>

definition array_accessor :: "lcm_member \<Rightarrow> string" where
  "array_accessor lm =
     lm_membername lm
     @ concat (map (\<lambda>dim. ''[i'' @ show_nat dim @ '']'') [0..<length (lm_dimensions lm)])"

definition emit_encode_member :: "lcm_member \<Rightarrow> string" where
  "emit_encode_member lm =
     (if length (lm_dimensions lm) = 0 then
        emit_encode_one (tn_lctypename (lm_type lm)) (lm_membername lm) 2
      else
        concat (map (\<lambda>dim.
            emit (2 + dim) (''for (var i'' @ show_nat dim @ '' = 0; i'' @ show_nat dim @ '' < ''
                            @ ld_size (lm_dimensions lm ! dim) @ ''; i'' @ show_nat dim @ ''++) {''))
            [0..<length (lm_dimensions lm)])
        @ emit_encode_one (tn_lctypename (lm_type lm)) (array_accessor lm)
            (2 + length (lm_dimensions lm))
        @ concat (map (\<lambda>dim. emit (2 + length (lm_dimensions lm) - 1 - dim) ''}'')
            [0..<length (lm_dimensions lm)]))"

definition emit_encode_body :: "lcm_struct \<Rightarrow> string" where
  "emit_encode_body ls =
     emit 2 ''buf.putInt64(LCM_FINGERPRINT);''
     @ concat (map emit_encode_member (ls_members ls))"

definition emit_encode_method :: "lcm_struct \<Rightarrow> string" where
  "emit_encode_method ls =
     emit 1 ''@override''
     @ emit 1 ''void encode(LcmBuffer buf) {''
     @ emit_encode_body ls
     @ emit 1 ''}''
     @ NL"

text \<open>The two type dispatches written out inside the decode loop of \<^verbatim>\<open>emit_struct\<close>.\<close>

definition emit_decode_scalar_rhs :: "string \<Rightarrow> string" where
  "emit_decode_scalar_rhs type_name =
     (if type_name = ''byte'' then emit_end ''buf.getUint8();''
      else if type_name = ''int8_t'' then emit_end ''buf.getInt8();''
      else if type_name = ''int16_t'' then emit_end ''buf.getInt16();''
      else if type_name = ''int32_t'' then emit_end ''buf.getInt32();''
      else if type_name = ''int64_t'' then emit_end ''buf.getInt64();''
      else if type_name = ''float'' then emit_end ''buf.getFloat32();''
      else if type_name = ''double'' then emit_end ''buf.getFloat64();''
      else if type_name = ''string'' then
        emit_end ''() {''
        @ emit 3 ''final len = buf.getUint32();''
        @ emit 3 ''final bytes = buf.getUint8List(len - 1);''
        @ emit 3 ''buf.getUint8(); // null terminator''
        @ emit 3 ''return utf8.decode(bytes);''
        @ emit 2 ''}();''
      else if type_name = ''boolean'' then emit_end ''buf.getUint8() != 0;''
      else emit_end (map_type_dart type_name @ ''.decode(buf);''))"

definition emit_decode_element :: "string \<Rightarrow> string" where
  "emit_decode_element type_name =
     (if type_name = ''byte'' then emit_continue ''buf.getUint8()''
      else if type_name = ''int8_t'' then emit_continue ''buf.getInt8()''
      else if type_name = ''int16_t'' then emit_continue ''buf.getInt16()''
      else if type_name = ''int32_t'' then emit_continue ''buf.getInt32()''
      else if type_name = ''int64_t'' then emit_continue ''buf.getInt64()''
      else if type_name = ''float'' then emit_continue ''buf.getFloat32()''
      else if type_name = ''double'' then emit_continue ''buf.getFloat64()''
      else if type_name = ''string'' then
        emit_continue ''() {''
        @ emit 3 ''final len = buf.getUint32();''
        @ emit 3 ''final bytes = buf.getUint8List(len - 1);''
        @ emit 3 ''buf.getUint8();''
        @ emit 3 ''return utf8.decode(bytes);''
        @ emit_start 2 ''}()''
      else if type_name = ''boolean'' then emit_continue ''buf.getUint8() != 0''
      else emit_continue (map_type_dart type_name @ ''.decode(buf)''))"

definition emit_decode_member :: "lcm_member \<Rightarrow> string" where
  "emit_decode_member lm =
     (if length (lm_dimensions lm) = 0 then
        emit_start 2 (''final '' @ lm_membername lm @ '' = '')
        @ emit_decode_scalar_rhs (tn_lctypename (lm_type lm))
      else
        emit_start 2 (''final '' @ lm_membername lm @ '' = '')
        @ emit_continue ''List.generate(''
        @ emit_continue (ld_size (lm_dimensions lm ! 0) @ '', (_) => '')
        @ concat (map (\<lambda>dim.
            emit_continue (''List.generate('' @ ld_size (lm_dimensions lm ! dim) @ '', (_) => ''))
            [1..<length (lm_dimensions lm)])
        @ emit_decode_element (tn_lctypename (lm_type lm))
        @ concat (map (\<lambda>dim. emit_continue '')'') [0..<length (lm_dimensions lm)])
        @ emit_end '';'')"

definition emit_fingerprint_check :: string where
  "emit_fingerprint_check =
     emit 2 ''final fingerprint = buf.getInt64();''
     @ emit 2 ''if (fingerprint != LCM_FINGERPRINT) {''
     @ emit 3 ''throw Exception('Invalid fingerprint');''
     @ emit 2 ''}''
     @ NL"

definition emit_return :: "lcm_struct \<Rightarrow> string" where
  "emit_return ls =
     emit 2 (''return '' @ class_name ls @ ''('')
     @ concat (map (\<lambda>lm. emit 3 (lm_membername lm @ '': '' @ lm_membername lm @ '','')) (ls_members ls))
     @ emit 2 '');''"

definition emit_decode_body :: "lcm_struct \<Rightarrow> string" where
  "emit_decode_body ls =
     emit_fingerprint_check
     @ concat (map emit_decode_member (ls_members ls))
     @ NL
     @ emit_return ls"

definition emit_decode_method :: "lcm_struct \<Rightarrow> string" where
  "emit_decode_method ls =
     emit 1 (''static '' @ class_name ls @ '' decode(LcmBuffer buf) {'')
     @ emit_decode_body ls
     @ emit 1 ''}''"

definition emit_struct_text :: "lcm_struct \<Rightarrow> string" where
  "emit_struct_text ls =
     emit_preamble
     @ emit_class_open ls
     @ emit_fingerprint_const ls
     @ emit_constants ls
     @ emit_fields ls
     @ emit_constructor ls
     @ emit_fingerprint_getter
     @ emit_encode_method ls
     @ emit_decode_method ls
     @ emit 0 ''}''"

section \<open>Files\<close>

text \<open>
  What the emitter sees of the file system. \<open>fopen_w path\<close> is the outcome of
  \<^verbatim>\<open>fopen(path, "w")\<close>: \<open>None\<close> when it returns \<open>NULL\<close>, otherwise the kind of
  stream it returns, one that takes what is written to it or one on which every write
  fails (a full device). The emitter never looks at the result of \<^verbatim>\<open>fprintf\<close> or
  \<^verbatim>\<open>fclose\<close>.

  Modelled from the spec: \<^verbatim>\<open>lcm_needs_generation\<close> is not part of this file; it is
  the decision "does this output require regeneration", taken from the schema file and the
  output path.
\<close>

datatype stream_kind = Accepting | Rejecting

record world =
  fopen_w :: "string \<Rightarrow> stream_kind option"
  lcm_needs_generation :: "string \<Rightarrow> string \<Rightarrow> bool"

text \<open>
  The effects: the files written (latest first), the directories \<^verbatim>\<open>mkdir\<close> was
  called on, and the paths reported by \<^verbatim>\<open>perror\<close>, both in call order.
\<close>

record fs_state =
  fs_files :: "(string \<times> string) list"
  fs_mkdirs :: "string list"
  fs_stderr :: "string list"

text \<open>
  The loop of \<^verbatim>\<open>make_dirs_for_file\<close>: \<open>pre\<close> is the path before index \<open>i\<close>,
  reversed. After a slash the extra \<^verbatim>\<open>i++\<close> steps over the next character.
\<close>

fun make_dirs_loop :: "string \<Rightarrow> string \<Rightarrow> string list" where
  "make_dirs_loop pre [] = []"
| "make_dirs_loop pre [c] = (if c = CHR ''/'' then [rev pre] else [])"
| "make_dirs_loop pre (c # d # cs) =
     (if c = CHR ''/'' then rev pre # make_dirs_loop (d # c # pre) cs
      else make_dirs_loop (c # pre) (d # cs))"

definition make_dirs_for_file :: "string \<Rightarrow> fs_state \<Rightarrow> fs_state" where
  "make_dirs_for_file path fs = fs\<lparr>fs_mkdirs := fs_mkdirs fs @ make_dirs_loop [] path\<rparr>"

definition emit_struct :: "world \<Rightarrow> lcm_struct \<Rightarrow> string \<Rightarrow> fs_state \<Rightarrow> int \<times> fs_state" where
  "emit_struct w ls path fs =
     (case fopen_w w path of
        None \<Rightarrow> (- 1, fs\<lparr>fs_stderr := fs_stderr fs @ [path]\<rparr>)
      | Some Accepting \<Rightarrow> (0, fs\<lparr>fs_files := (path, emit_struct_text ls) # fs_files fs\<rparr>)
      | Some Rejecting \<Rightarrow> (0, fs\<lparr>fs_files := (path, []) # fs_files fs\<rparr>))"

text \<open>The two options \<^verbatim>\<open>emit_dart\<close> reads, and the structs.\<close>

record lcmgen =
  opt_dart_path :: string
  opt_dart_mkdir :: bool
  lcm_structs :: "lcm_struct list"

text \<open>\<^verbatim>\<open>snprintf\<close> into \<^verbatim>\<open>char path[1024]\<close> keeps at most 1023 characters.\<close>

definition output_path :: "string \<Rightarrow> lcm_struct \<Rightarrow> string" where
  "output_path dart_path ls =
     (let package_dir = dots_to_slashes (tn_package (ls_structname ls)) in
      take 1023 (dart_path @ (if length dart_path > 0 then ''/'' else [])
                 @ package_dir @ (if length package_dir > 0 then ''/'' else [])
                 @ tn_shortname (ls_structname ls) @ ''.g.dart''))"

fun emit_dart_loop :: "world \<Rightarrow> string \<Rightarrow> bool \<Rightarrow> lcm_struct list \<Rightarrow> fs_state \<Rightarrow> int \<times> fs_state" where
  "emit_dart_loop w dart_path make_dirs [] fs = (0, fs)"
| "emit_dart_loop w dart_path make_dirs (ls # rest) fs =
     (let path = output_path dart_path ls;
          fs1 = (if make_dirs then make_dirs_for_file path fs else fs)
      in if \<not> lcm_needs_generation w (ls_lcmfile ls) path then
           emit_dart_loop w dart_path make_dirs rest fs1
         else
           (case emit_struct w ls path fs1 of
              (status, fs2) \<Rightarrow>
                if status \<noteq> 0 then (status, fs2)
                else emit_dart_loop w dart_path make_dirs rest fs2))"

definition emit_dart :: "world \<Rightarrow> lcmgen \<Rightarrow> fs_state \<Rightarrow> int \<times> fs_state" where
  "emit_dart w g fs =
     (let dart_path = (if length (opt_dart_path g) = 0 then ''.'' else opt_dart_path g)
      in emit_dart_loop w dart_path (opt_dart_mkdir g) (lcm_structs g) fs)"

section \<open>What the claims speak of\<close>

text \<open>A lower-case letter, in the sense of \<^verbatim>\<open>toupper\<close> above.\<close>

definition islower :: "char \<Rightarrow> bool" where
  "islower c = (97 \<le> (of_char c :: nat) \<and> (of_char c :: nat) \<le> 122)"

text \<open>
  PascalCase as the specification words it: every underscore is removed, and a character
  is capitalised when the character before it is an underscore; the first character
  counts as following one.
\<close>

definition pascal_spec :: "string \<Rightarrow> string" where
  "pascal_spec s =
     map (\<lambda>(p, c). if p = CHR ''_'' then toupper c else c)
         (filter (\<lambda>(p, c). c \<noteq> CHR ''_'') (zip (CHR ''_'' # s) s))"

text \<open>
  The path of a unit as the specification words it: the root, the package with its dots
  turned into separators, the short name, the extension.
\<close>

definition unit_path :: "string \<Rightarrow> lcm_struct \<Rightarrow> string" where
  "unit_path root ls =
     root @ (if root = [] then [] else ''/'')
     @ dots_to_slashes (tn_package (ls_structname ls))
     @ (if tn_package (ls_structname ls) = [] then [] else ''/'')
     @ tn_shortname (ls_structname ls) @ ''.g.dart''"

text \<open>Schemas used as concrete inputs.\<close>

definition plain_type :: "string \<Rightarrow> lcm_typename" where
  "plain_type n = \<lparr>tn_lctypename = n, tn_package = [], tn_shortname = n\<rparr>"

definition scalar_member :: "string \<Rightarrow> string \<Rightarrow> lcm_member" where
  "scalar_member t n =
     \<lparr>lm_type = plain_type t, lm_membername = n, lm_dimensions = [], lm_comment = None\<rparr>"

definition qualified_member :: "string \<Rightarrow> string \<Rightarrow> string \<Rightarrow> string \<Rightarrow> lcm_member" where
  "qualified_member t p s n =
     \<lparr>lm_type = \<lparr>tn_lctypename = t, tn_package = p, tn_shortname = s\<rparr>, lm_membername = n,
      lm_dimensions = [], lm_comment = None\<rparr>"

definition array_member :: "string \<Rightarrow> string \<Rightarrow> string list \<Rightarrow> lcm_member" where
  "array_member t n sizes =
     \<lparr>lm_type = plain_type t, lm_membername = n,
      lm_dimensions = map (\<lambda>s. \<lparr>ld_size = s\<rparr>) sizes, lm_comment = None\<rparr>"

definition simple_struct :: "lcm_typename \<Rightarrow> 64 word \<Rightarrow> lcm_member list \<Rightarrow> lcm_struct" where
  "simple_struct tn h ms =
     \<lparr>ls_structname = tn, ls_members = ms, ls_constants = [], ls_lcmfile = ''types.lcm'',
      ls_hash = h, ls_comment = None\<rparr>"

definition point_t :: lcm_struct where
  "point_t =
     simple_struct \<lparr>tn_lctypename = ''geo.point_t'', tn_package = ''geo'', tn_shortname = ''point_t''\<rparr>
       0x8000000000000001 [scalar_member ''int32_t'' ''x'']"

definition empty_fs :: fs_state where
  "empty_fs = \<lparr>fs_files = [], fs_mkdirs = [], fs_stderr = []\<rparr>"

definition open_world :: world where
  "open_world = \<lparr>fopen_w = (\<lambda>p. Some Accepting), lcm_needs_generation = (\<lambda>f p. True)\<rparr>"

definition line_t :: lcm_struct where
  "line_t = simple_struct (plain_type ''line_t'') 0x1234 [scalar_member ''point_t'' ''a'']"

definition blocked_world :: world where
  "blocked_world =
     \<lparr>fopen_w = (\<lambda>p. if p = ''./geo/point_t.g.dart'' then None else Some Accepting),
      lcm_needs_generation = (\<lambda>f p. True)\<rparr>"

definition full_world :: world where
  "full_world =
     \<lparr>fopen_w = (\<lambda>p. if p = ''./geo/point_t.g.dart'' then Some Rejecting else Some Accepting),
      lcm_needs_generation = (\<lambda>f p. True)\<rparr>"

definition batch :: "lcm_struct list \<Rightarrow> lcmgen" where
  "batch ss = \<lparr>opt_dart_path = [], opt_dart_mkdir = True, lcm_structs = ss\<rparr>"

section \<open>Running the generated code\<close>

text \<open>
  The claims about the wire are claims about what the emitted Dart does when it runs. The
  emitted method bodies are therefore executed: the text is cut into tokens, one statement
  at a time is parsed and carried out on a buffer. Only the part of Dart that
  \<^verbatim>\<open>emit_struct\<close> writes into method bodies is covered; anything else is a
  \<open>SyntaxError\<close> or a \<open>NoSuchMethod\<close>.
\<close>

subsection \<open>Tokens\<close>

datatype token = TId string | TNum int | TStr string | TSym string

datatype lex_state = Idle | InId string | InDec int | InHex int | InStr string | InComment

definition is_space :: "char \<Rightarrow> bool" where
  "is_space c = (c = CHR '' '' \<or> c = CHR 0x0A \<or> c = CHR 0x09 \<or> c = CHR 0x0D)"

definition is_digit :: "char \<Rightarrow> bool" where
  "is_digit c = (48 \<le> (of_char c :: nat) \<and> (of_char c :: nat) \<le> 57)"

definition is_alpha :: "char \<Rightarrow> bool" where
  "is_alpha c = ((65 \<le> (of_char c :: nat) \<and> (of_char c :: nat) \<le> 90)
     \<or> (97 \<le> (of_char c :: nat) \<and> (of_char c :: nat) \<le> 122) \<or> c = CHR ''_'')"

definition hex_val :: "char \<Rightarrow> int option" where
  "hex_val c =
     (let n = (of_char c :: int) in
      if 48 \<le> n \<and> n \<le> 57 then Some (n - 48)
      else if 97 \<le> n \<and> n \<le> 102 then Some (n - 87)
      else if 65 \<le> n \<and> n \<le> 70 then Some (n - 55)
      else None)"

definition two_char_syms :: "string list" where
  "two_char_syms = [''!='', ''=>'', ''++'']"

function lex_go :: "lex_state \<Rightarrow> string \<Rightarrow> token list" where
  "lex_go Idle [] = []"
| "lex_go (InId acc) [] = [TId (rev acc)]"
| "lex_go (InDec n) [] = [TNum n]"
| "lex_go (InHex n) [] = [TNum n]"
| "lex_go (InStr acc) [] = [TSym ''unterminated string'']"
| "lex_go InComment [] = []"
| "lex_go Idle (c # cs) =
     (if is_space c then lex_go Idle cs
      else if is_alpha c then lex_go (InId [c]) cs
      else if c = CHR ''0'' \<and> cs \<noteq> [] \<and> hd cs = CHR ''x'' then lex_go (InHex 0) (tl cs)
      else if is_digit c then lex_go (InDec (of_char c - 48)) cs
      else if c = CHR 0x27 then lex_go (InStr []) cs
      else if c = CHR ''/'' \<and> cs \<noteq> [] \<and> hd cs = CHR ''/'' then lex_go InComment (tl cs)
      else if cs \<noteq> [] \<and> [c, hd cs] \<in> set two_char_syms
        then TSym [c, hd cs] # lex_go Idle (tl cs)
      else TSym [c] # lex_go Idle cs)"
| "lex_go (InId acc) (c # cs) =
     (if is_alpha c \<or> is_digit c then lex_go (InId (c # acc)) cs
      else TId (rev acc) # lex_go Idle (c # cs))"
| "lex_go (InDec n) (c # cs) =
     (if is_digit c then lex_go (InDec (10 * n + (of_char c - 48))) cs
      else TNum n # lex_go Idle (c # cs))"
| "lex_go (InHex n) (c # cs) =
     (case hex_val c of
        Some d \<Rightarrow> lex_go (InHex (16 * n + d)) cs
      | None \<Rightarrow> TNum n # lex_go Idle (c # cs))"
| "lex_go (InStr acc) (c # cs) =
     (if c = CHR 0x27 then TStr (rev acc) # lex_go Idle cs else lex_go (InStr (c # acc)) cs)"
| "lex_go InComment (c # cs) =
     (if c = CHR 0x0A then lex_go Idle cs else lex_go InComment cs)"
  by pat_completeness auto
termination
  by (relation "measure (\<lambda>(st, s). 2 * length s + (if st = Idle then 0 else 1))") auto

definition lex :: "string \<Rightarrow> token list" where
  "lex s = lex_go Idle s"

subsection \<open>Statements and expressions\<close>

datatype dart_expr =
    EInt int
  | EStr string
  | EName string
  | EProp dart_expr string
  | EIndex dart_expr dart_expr
  | ECall dart_expr "(string \<times> dart_expr) list"
  | EBin string dart_expr dart_expr
  | ECond dart_expr dart_expr dart_expr
  | ELambda dart_expr
  | EClosure "dart_stmt list"
and dart_stmt =
    SFinal string dart_expr
  | SExpr dart_expr
  | SBlock "dart_stmt list"
  | SFor string dart_expr dart_expr "dart_stmt list"
  | SIf dart_expr "dart_stmt list"
  | SThrow dart_expr
  | SReturn dart_expr

text \<open>
  An integer literal is a 64-bit value: a hexadecimal literal above \<open>2^63 - 1\<close> denotes
  the negative number with the same bits.
\<close>

definition literal_value :: "int \<Rightarrow> int" where
  "literal_value k = (if k \<ge> 2 ^ 63 then k - 2 ^ 64 else k)"

definition sym :: "string \<Rightarrow> token list \<Rightarrow> token list option" where
  "sym s ts = (case ts of TSym x # r \<Rightarrow> if x = s then Some r else None | _ \<Rightarrow> None)"

definition kw :: "string \<Rightarrow> token list \<Rightarrow> token list option" where
  "kw s ts = (case ts of TId x # r \<Rightarrow> if x = s then Some r else None | _ \<Rightarrow> None)"

definition ident :: "token list \<Rightarrow> (string \<times> token list) option" where
  "ident ts = (case ts of TId x # r \<Rightarrow> Some (x, r) | _ \<Rightarrow> None)"

text \<open>An argument may carry a name, as in \<open>x: e\<close>.\<close>

definition arg_name :: "token list \<Rightarrow> string \<times> token list" where
  "arg_name ts =
     (case ts of
        TId x # TSym c # r \<Rightarrow> if c = '':'' then (x, r) else ([], ts)
      | _ \<Rightarrow> ([], ts))"

text \<open>
  A recursive-descent parser. The first argument bounds the depth of the recursion; a text
  nested deeper than that is not parsed.
\<close>

function (sequential) p_primary :: "nat \<Rightarrow> token list \<Rightarrow> (dart_expr \<times> token list) option"
  and p_postfix :: "nat \<Rightarrow> dart_expr \<Rightarrow> token list \<Rightarrow> (dart_expr \<times> token list) option"
  and p_args :: "nat \<Rightarrow> token list \<Rightarrow> ((string \<times> dart_expr) list \<times> token list) option"
  and p_term :: "nat \<Rightarrow> token list \<Rightarrow> (dart_expr \<times> token list) option"
  and p_sum_rest :: "nat \<Rightarrow> dart_expr \<Rightarrow> token list \<Rightarrow> (dart_expr \<times> token list) option"
  and p_cmp :: "nat \<Rightarrow> token list \<Rightarrow> (dart_expr \<times> token list) option"
  and p_expr :: "nat \<Rightarrow> token list \<Rightarrow> (dart_expr \<times> token list) option"
  and p_stmt :: "nat \<Rightarrow> token list \<Rightarrow> (dart_stmt \<times> token list) option"
  and p_block :: "nat \<Rightarrow> token list \<Rightarrow> (dart_stmt list \<times> token list) option"
where
  "p_primary 0 ts = None"
| "p_primary (Suc n) ts =
     (case ts of
        TNum k # r \<Rightarrow> Some (EInt (literal_value k), r)
      | TStr s # r \<Rightarrow> Some (EStr s, r)
      | TId x # r \<Rightarrow> Some (EName x, r)
      | TSym s # r \<Rightarrow>
          if s \<noteq> ''('' then None
          else (case sym '')'' r of
                  Some r1 \<Rightarrow>
                    Option.bind (sym ''{'' r1) (\<lambda>r2.
                    Option.bind (p_block n r2) (\<lambda>(ss, r3). Some (EClosure ss, r3)))
                | None \<Rightarrow>
                    Option.bind (kw ''_'' r) (\<lambda>r1.
                    Option.bind (sym '')'' r1) (\<lambda>r2.
                    Option.bind (sym ''=>'' r2) (\<lambda>r3.
                    Option.bind (p_expr n r3) (\<lambda>(e, r4). Some (ELambda e, r4))))))
      | [] \<Rightarrow> None)"
| "p_postfix 0 e ts = None"
| "p_postfix (Suc n) e ts =
     (case ts of
        TSym s # r \<Rightarrow>
          if s = ''.'' then
            Option.bind (ident r) (\<lambda>(m, r1). p_postfix n (EProp e m) r1)
          else if s = ''['' then
            Option.bind (p_expr n r) (\<lambda>(i, r1).
            Option.bind (sym '']'' r1) (\<lambda>r2. p_postfix n (EIndex e i) r2))
          else if s = ''('' then
            Option.bind (p_args n r) (\<lambda>(as, r1). p_postfix n (ECall e as) r1)
          else Some (e, ts)
      | _ \<Rightarrow> Some (e, ts))"
| "p_args 0 ts = None"
| "p_args (Suc n) ts =
     (case sym '')'' ts of
        Some r \<Rightarrow> Some ([], r)
      | None \<Rightarrow>
          Option.bind (p_expr n (snd (arg_name ts))) (\<lambda>(e, r1).
            case sym '','' r1 of
              Some r2 \<Rightarrow>
                Option.bind (p_args n r2) (\<lambda>(as, r3). Some ((fst (arg_name ts), e) # as, r3))
            | None \<Rightarrow>
                Option.bind (sym '')'' r1) (\<lambda>r2. Some ([(fst (arg_name ts), e)], r2))))"
| "p_term 0 ts = None"
| "p_term (Suc n) ts = Option.bind (p_primary n ts) (\<lambda>(e, r). p_postfix n e r)"
| "p_sum_rest 0 a ts = None"
| "p_sum_rest (Suc n) a ts =
     (case ts of
        TSym s # r \<Rightarrow>
          if s = ''+'' \<or> s = ''-'' then
            Option.bind (p_term n r) (\<lambda>(b, r1). p_sum_rest n (EBin s a b) r1)
          else Some (a, ts)
      | _ \<Rightarrow> Some (a, ts))"
| "p_cmp 0 ts = None"
| "p_cmp (Suc n) ts =
     Option.bind (p_term n ts) (\<lambda>(a0, r0).
     Option.bind (p_sum_rest n a0 r0) (\<lambda>(a, r).
       case r of
         TSym s # r1 \<Rightarrow>
           if s = ''!='' \<or> s = ''<'' then
             Option.bind (p_term n r1) (\<lambda>(b0, r2).
             Option.bind (p_sum_rest n b0 r2) (\<lambda>(b, r3). Some (EBin s a b, r3)))
           else Some (a, r)
       | _ \<Rightarrow> Some (a, r)))"
| "p_expr 0 ts = None"
| "p_expr (Suc n) ts =
     Option.bind (p_cmp n ts) (\<lambda>(c, r).
       case sym ''?'' r of
         Some r1 \<Rightarrow>
           Option.bind (p_expr n r1) (\<lambda>(a, r2).
           Option.bind (sym '':'' r2) (\<lambda>r3.
           Option.bind (p_expr n r3) (\<lambda>(b, r4). Some (ECond c a b, r4))))
       | None \<Rightarrow> Some (c, r))"
| "p_stmt 0 ts = None"
| "p_stmt (Suc n) ts =
     (if sym ''{'' ts \<noteq> None then
        Option.bind (p_block n (the (sym ''{'' ts))) (\<lambda>(ss, r). Some (SBlock ss, r))
      else if kw ''final'' ts \<noteq> None then
        Option.bind (ident (the (kw ''final'' ts))) (\<lambda>(x, r).
        Option.bind (sym ''='' r) (\<lambda>r1.
        Option.bind (p_expr n r1) (\<lambda>(e, r2).
        Option.bind (sym '';'' r2) (\<lambda>r3. Some (SFinal x e, r3)))))
      else if kw ''for'' ts \<noteq> None then
        Option.bind (sym ''('' (the (kw ''for'' ts))) (\<lambda>r.
        Option.bind (kw ''var'' r) (\<lambda>r1.
        Option.bind (ident r1) (\<lambda>(i, r2).
        Option.bind (sym ''='' r2) (\<lambda>r3.
        Option.bind (p_expr n r3) (\<lambda>(e0, r4).
        Option.bind (sym '';'' r4) (\<lambda>r5.
        Option.bind (p_expr n r5) (\<lambda>(c, r6).
        Option.bind (sym '';'' r6) (\<lambda>r7.
        Option.bind (kw i r7) (\<lambda>r8.
        Option.bind (sym ''++'' r8) (\<lambda>r9.
        Option.bind (sym '')'' r9) (\<lambda>r10.
        Option.bind (sym ''{'' r10) (\<lambda>r11.
        Option.bind (p_block n r11) (\<lambda>(ss, r12). Some (SFor i e0 c ss, r12))))))))))))))
      else if kw ''if'' ts \<noteq> None then
        Option.bind (sym ''('' (the (kw ''if'' ts))) (\<lambda>r.
        Option.bind (p_expr n r) (\<lambda>(c, r1).
        Option.bind (sym '')'' r1) (\<lambda>r2.
        Option.bind (sym ''{'' r2) (\<lambda>r3.
        Option.bind (p_block n r3) (\<lambda>(ss, r4). Some (SIf c ss, r4))))))
      else if kw ''throw'' ts \<noteq> None then
        Option.bind (p_expr n (the (kw ''throw'' ts))) (\<lambda>(e, r).
        Option.bind (sym '';'' r) (\<lambda>r1. Some (SThrow e, r1)))
      else if kw ''return'' ts \<noteq> None then
        Option.bind (p_expr n (the (kw ''return'' ts))) (\<lambda>(e, r).
        Option.bind (sym '';'' r) (\<lambda>r1. Some (SReturn e, r1)))
      else
        Option.bind (p_expr n ts) (\<lambda>(e, r).
        Option.bind (sym '';'' r) (\<lambda>r1. Some (SExpr e, r1))))"
| "p_block 0 ts = None"
| "p_block (Suc n) ts =
     (case sym ''}'' ts of
        Some r \<Rightarrow> Some ([], r)
      | None \<Rightarrow>
          Option.bind (p_stmt n ts) (\<lambda>(s, r).
          Option.bind (p_block n r) (\<lambda>(ss, r1). Some (s # ss, r1))))"
  by pat_completeness auto
termination
  by (relation "measure (\<lambda>x. case x of
        Inl (Inl (Inl (n, _))) \<Rightarrow> n | Inl (Inl (Inr (n, _))) \<Rightarrow> n
      | Inl (Inr (Inl (n, _))) \<Rightarrow> n | Inl (Inr (Inr (n, _))) \<Rightarrow> n
      | Inr (Inl (Inl (n, _))) \<Rightarrow> n | Inr (Inl (Inr (n, _))) \<Rightarrow> n
      | Inr (Inr (Inl (n, _))) \<Rightarrow> n | Inr (Inr (Inr (Inl (n, _)))) \<Rightarrow> n
      | Inr (Inr (Inr (Inr (n, _)))) \<Rightarrow> n)") simp_all

subsection \<open>Values\<close>

text \<open>
  Integers are not cut to 64 bits: no length or index in reach of a claim comes near the
  bound. A string is kept as the sequence of its UTF-8 code units, so that
  \<open>utf8.encode\<close> and \<open>utf8.decode\<close> only change the view. A \<open>double\<close> is
  kept as its IEEE-754 binary64 bit pattern. \<open>VStatic\<close> is what a name means that is not a variable: a class or a
  library object; a generated class of that name comes first.
\<close>

datatype dart_value =
    VNull
  | VInt int
  | VBool bool
  | VString string
  | VDouble "64 word"
  | VBytes "8 word list"
  | VList "dart_value list"
  | VObject string "(string \<times> dart_value) list"
  | VBuffer
  | VStatic string
  | VLambda "(string \<times> dart_value) list" dart_expr
  | VClosure "(string \<times> dart_value) list" "dart_stmt list"

datatype dart_error =
    Thrown dart_value
  | RangeError
  | TypeError
  | NoSuchMethod string
  | SyntaxError
  | OutOfFuel

subsection \<open>The buffer\<close>

text \<open>
  Modelled from the spec: the class \<^verbatim>\<open>LcmBuffer\<close> of the package
  \<^verbatim>\<open>lcm_dart\<close> that the generated code imports is not among the sources. The wire
  format table gives its integers a fixed width and byte order (big-endian: the scenario
  of the testable properties writes 42 as \<^verbatim>\<open>00 00 00 2A\<close>), signed ones in two's
  complement, and its floats the IEEE-754 formats of 4 and 8 bytes. A put appends at the end, a get reads at the current position and fails
  when the bytes are not there. A value too wide for its field is cut to the field.
\<close>

record lcm_buffer =
  buf_bytes :: "8 word list"
  buf_pos :: nat

definition be_bytes :: "nat \<Rightarrow> int \<Rightarrow> 8 word list" where
  "be_bytes n v = map (\<lambda>i. word_of_int (v div 2 ^ (8 * i))) (rev [0..<n])"

definition be_unsigned :: "8 word list \<Rightarrow> int" where
  "be_unsigned bs = foldl (\<lambda>a b. a * 256 + uint b) 0 bs"

definition be_signed :: "8 word list \<Rightarrow> int" where
  "be_signed bs =
     (if be_unsigned bs \<ge> 2 ^ (8 * length bs - 1) then be_unsigned bs - 2 ^ (8 * length bs)
      else be_unsigned bs)"

definition buf_write :: "8 word list \<Rightarrow> lcm_buffer \<Rightarrow> lcm_buffer" where
  "buf_write bs b = b\<lparr>buf_bytes := buf_bytes b @ bs\<rparr>"

definition buf_read :: "nat \<Rightarrow> lcm_buffer \<Rightarrow> (8 word list \<times> lcm_buffer) option" where
  "buf_read n b =
     (if buf_pos b + n \<le> length (buf_bytes b)
      then Some (take n (drop (buf_pos b) (buf_bytes b)), b\<lparr>buf_pos := buf_pos b + n\<rparr>)
      else None)"

datatype 'a outcome = Ok 'a lcm_buffer | Fail dart_error lcm_buffer

fun obind :: "'a outcome \<Rightarrow> ('a \<Rightarrow> lcm_buffer \<Rightarrow> 'b outcome) \<Rightarrow> 'b outcome" where
  "obind (Ok v b) f = f v b"
| "obind (Fail e b) f = Fail e b"

definition put_width :: "string \<Rightarrow> nat option" where
  "put_width m =
     (if m = ''putUint8'' \<or> m = ''putInt8'' then Some 1
      else if m = ''putInt16'' then Some 2
      else if m = ''putInt32'' \<or> m = ''putUint32'' then Some 4
      else if m = ''putInt64'' then Some 8
      else None)"

definition get_width :: "string \<Rightarrow> (nat \<times> bool) option" where
  "get_width m =
     (if m = ''getUint8'' then Some (1, False)
      else if m = ''getInt8'' then Some (1, True)
      else if m = ''getInt16'' then Some (2, True)
      else if m = ''getInt32'' then Some (4, True)
      else if m = ''getUint32'' then Some (4, False)
      else if m = ''getInt64'' then Some (8, True)
      else None)"

text \<open>
  The two conversions between binary64 and binary32 that a 4-byte float field needs:
  narrowing rounds to nearest, ties to even, as the conversion of the platform does;
  widening is exact.
\<close>

definition round_shift :: "int \<Rightarrow> nat \<Rightarrow> int" where
  "round_shift m k =
     (if 2 * (m mod 2 ^ k) > 2 ^ k \<or> (2 * (m mod 2 ^ k) = 2 ^ k \<and> odd (m div 2 ^ k))
      then m div 2 ^ k + 1 else m div 2 ^ k)"

definition float32_of_float64 :: "64 word \<Rightarrow> 32 word" where
  "float32_of_float64 w =
     (let s = (if bit w 63 then 2 ^ 31 else 0 :: int);
          e = uint (drop_bit 52 w) mod 2048;
          f = uint w mod 2 ^ 52
      in if e = 2047 then
           (if f = 0 then word_of_int (s + 255 * 2 ^ 23)
            else word_of_int (s + 255 * 2 ^ 23 + 2 ^ 22 + (f div 2 ^ 29) mod 2 ^ 22))
         else if e \<ge> 897 then
           (if (e - 897) * 2 ^ 23 + round_shift (f + 2 ^ 52) 29 \<ge> 255 * 2 ^ 23
            then word_of_int (s + 255 * 2 ^ 23)
            else word_of_int (s + (e - 897) * 2 ^ 23 + round_shift (f + 2 ^ 52) 29))
         else if e = 0 then word_of_int (s + round_shift f 925)
         else word_of_int (s + round_shift (f + 2 ^ 52) (nat (926 - e))))"

primrec top_bit :: "nat \<Rightarrow> int \<Rightarrow> nat" where
  "top_bit 0 f = 0"
| "top_bit (Suc k) f = (if 2 ^ Suc k \<le> f then Suc k else top_bit k f)"

definition float64_of_float32 :: "32 word \<Rightarrow> 64 word" where
  "float64_of_float32 w =
     (let s = (if bit w 31 then 2 ^ 63 else 0 :: int);
          e = uint (drop_bit 23 w) mod 256;
          f = uint w mod 2 ^ 23
      in if e = 255 then word_of_int (s + 2047 * 2 ^ 52 + f * 2 ^ 29)
         else if e = 0 then
           (if f = 0 then word_of_int s
            else word_of_int (s + (int (top_bit 22 f) + 874) * 2 ^ 52
                              + (f - 2 ^ top_bit 22 f) * 2 ^ (52 - top_bit 22 f)))
         else word_of_int (s + (e + 896) * 2 ^ 52 + f * 2 ^ 29))"

definition float_call :: "string \<Rightarrow> dart_value list \<Rightarrow> lcm_buffer \<Rightarrow> dart_value outcome" where
  "float_call m args b =
     (if m = ''putFloat64'' then
        (case args of
           [VDouble w] \<Rightarrow> Ok VNull (buf_write (be_bytes 8 (uint w)) b)
         | _ \<Rightarrow> Fail TypeError b)
      else if m = ''putFloat32'' then
        (case args of
           [VDouble w] \<Rightarrow> Ok VNull (buf_write (be_bytes 4 (uint (float32_of_float64 w))) b)
         | _ \<Rightarrow> Fail TypeError b)
      else if m = ''getFloat64'' then
        (case args of
           [] \<Rightarrow>
             (case buf_read 8 b of
                Some (bs, b1) \<Rightarrow> Ok (VDouble (word_of_int (be_unsigned bs))) b1
              | None \<Rightarrow> Fail RangeError b)
         | _ \<Rightarrow> Fail TypeError b)
      else if m = ''getFloat32'' then
        (case args of
           [] \<Rightarrow>
             (case buf_read 4 b of
                Some (bs, b1) \<Rightarrow>
                  Ok (VDouble (float64_of_float32 (word_of_int (be_unsigned bs)))) b1
              | None \<Rightarrow> Fail RangeError b)
         | _ \<Rightarrow> Fail TypeError b)
      else Fail (NoSuchMethod m) b)"

definition buffer_call :: "string \<Rightarrow> dart_value list \<Rightarrow> lcm_buffer \<Rightarrow> dart_value outcome" where
  "buffer_call m args b =
     (case put_width m of
        Some w \<Rightarrow>
          (case args of
             [VInt v] \<Rightarrow> Ok VNull (buf_write (be_bytes w v) b)
           | _ \<Rightarrow> Fail TypeError b)
      | None \<Rightarrow>
          (case get_width m of
             Some (w, sg) \<Rightarrow>
               (case args of
                  [] \<Rightarrow>
                    (case buf_read w b of
                       Some (bs, b1) \<Rightarrow> Ok (VInt (if sg then be_signed bs else be_unsigned bs)) b1
                     | None \<Rightarrow> Fail RangeError b)
                | _ \<Rightarrow> Fail TypeError b)
           | None \<Rightarrow>
               if m = ''putUint8List'' then
                 (case args of
                    [VBytes bs] \<Rightarrow> Ok VNull (buf_write bs b)
                  | _ \<Rightarrow> Fail TypeError b)
               else if m = ''getUint8List'' then
                 (case args of
                    [VInt k] \<Rightarrow>
                      if k < 0 then Fail RangeError b
                      else (case buf_read (nat k) b of
                              Some (bs, b1) \<Rightarrow> Ok (VBytes bs) b1
                            | None \<Rightarrow> Fail RangeError b)
                  | _ \<Rightarrow> Fail TypeError b)
               else float_call m args b))"

definition utf8_encode :: "string \<Rightarrow> 8 word list" where
  "utf8_encode s = map (\<lambda>c. word_of_nat (of_char c)) s"

definition utf8_decode :: "8 word list \<Rightarrow> string" where
  "utf8_decode bs = map (\<lambda>b. char_of (unat b)) bs"

definition utf8_call :: "string \<Rightarrow> dart_value list \<Rightarrow> lcm_buffer \<Rightarrow> dart_value outcome" where
  "utf8_call m args b =
     (if m = ''encode'' then
        (case args of [VString s] \<Rightarrow> Ok (VBytes (utf8_encode s)) b | _ \<Rightarrow> Fail TypeError b)
      else if m = ''decode'' then
        (case args of [VBytes bs] \<Rightarrow> Ok (VString (utf8_decode bs)) b | _ \<Rightarrow> Fail TypeError b)
      else Fail (NoSuchMethod m) b)"

subsection \<open>Classes\<close>

text \<open>
  A generated class, as far as running it needs: its name, the line of its fingerprint
  constant, and the bodies of its two methods, all as text.
\<close>

record dart_class =
  dc_name :: string
  dc_consts :: string
  dc_encode :: string
  dc_decode :: string

definition dart_class_of :: "lcm_struct \<Rightarrow> dart_class" where
  "dart_class_of ls =
     \<lparr>dc_name = class_name ls, dc_consts = emit_fingerprint_const ls,
      dc_encode = emit_encode_body ls, dc_decode = emit_decode_body ls\<rparr>"

definition find_class :: "dart_class list \<Rightarrow> string \<Rightarrow> dart_class option" where
  "find_class P n = find (\<lambda>c. dc_name c = n) P"

text \<open>The static constant of a class: \<open>static const int NAME = literal;\<close>.\<close>

definition static_env :: "dart_class \<Rightarrow> (string \<times> dart_value) list" where
  "static_env c =
     (case lex (dc_consts c) of
        [TId a, TId b, TId t, TId x, TSym e, TNum k, TSym s] \<Rightarrow>
          if a = ''static'' \<and> b = ''const'' \<and> t = ''int'' \<and> e = ''='' \<and> s = '';''
          then [(x, VInt (literal_value k))] else []
      | _ \<Rightarrow> [])"

subsection \<open>Evaluation\<close>

datatype flow = Next "(string \<times> dart_value) list" | Returned dart_value

definition index_value :: "dart_value \<Rightarrow> dart_value \<Rightarrow> lcm_buffer \<Rightarrow> dart_value outcome" where
  "index_value v i b =
     (case (v, i) of
        (VList xs, VInt k) \<Rightarrow>
          if 0 \<le> k \<and> k < int (length xs) then Ok (xs ! nat k) b else Fail RangeError b
      | (VBytes bs, VInt k) \<Rightarrow>
          if 0 \<le> k \<and> k < int (length bs) then Ok (VInt (uint (bs ! nat k))) b
          else Fail RangeError b
      | _ \<Rightarrow> Fail TypeError b)"

definition property_value :: "dart_value \<Rightarrow> string \<Rightarrow> lcm_buffer \<Rightarrow> dart_value outcome" where
  "property_value v p b =
     (if p = ''length'' then
        (case v of
           VBytes bs \<Rightarrow> Ok (VInt (int (length bs))) b
         | VList xs \<Rightarrow> Ok (VInt (int (length xs))) b
         | _ \<Rightarrow> Fail (NoSuchMethod p) b)
      else Fail (NoSuchMethod p) b)"

definition binop :: "string \<Rightarrow> dart_value \<Rightarrow> dart_value \<Rightarrow> lcm_buffer \<Rightarrow> dart_value outcome" where
  "binop op u w b =
     (case (u, w) of
        (VInt x, VInt y) \<Rightarrow>
          if op = ''+'' then Ok (VInt (x + y)) b
          else if op = ''-'' then Ok (VInt (x - y)) b
          else if op = ''!='' then Ok (VBool (x \<noteq> y)) b
          else if op = ''<'' then Ok (VBool (x < y)) b
          else Fail (NoSuchMethod op) b
      | _ \<Rightarrow> Fail TypeError b)"

definition name_value :: "(string \<times> dart_value) list \<Rightarrow> string \<Rightarrow> dart_value" where
  "name_value env x = (case map_of env x of Some v \<Rightarrow> v | None \<Rightarrow> VStatic x)"

definition flow_value :: "flow \<Rightarrow> dart_value" where
  "flow_value fl = (case fl of Returned v \<Rightarrow> v | Next env \<Rightarrow> VNull)"

text \<open>
  The first argument bounds the depth of the evaluation. A method body is run from its
  text, one statement after the other: the next statement is parsed only when the one
  before it has completed normally. The parser gets a depth that grows with the text left,
  more than any statement in it can need.
\<close>

definition parse_fuel :: "token list \<Rightarrow> nat" where
  "parse_fuel ts = 4 * length ts + 64"

function (sequential)
      eval_expr :: "nat \<Rightarrow> dart_class list \<Rightarrow> (string \<times> dart_value) list \<Rightarrow> dart_expr
        \<Rightarrow> lcm_buffer \<Rightarrow> dart_value outcome"
  and eval_args :: "nat \<Rightarrow> dart_class list \<Rightarrow> (string \<times> dart_value) list
        \<Rightarrow> (string \<times> dart_expr) list \<Rightarrow> lcm_buffer \<Rightarrow> (string \<times> dart_value) list outcome"
  and call_method :: "nat \<Rightarrow> dart_class list \<Rightarrow> dart_value \<Rightarrow> string \<Rightarrow> dart_value list
        \<Rightarrow> lcm_buffer \<Rightarrow> dart_value outcome"
  and generate :: "nat \<Rightarrow> dart_class list \<Rightarrow> (string \<times> dart_value) list \<Rightarrow> dart_expr
        \<Rightarrow> nat \<Rightarrow> dart_value list \<Rightarrow> lcm_buffer \<Rightarrow> dart_value outcome"
  and exec_stmt :: "nat \<Rightarrow> dart_class list \<Rightarrow> (string \<times> dart_value) list \<Rightarrow> dart_stmt
        \<Rightarrow> lcm_buffer \<Rightarrow> flow outcome"
  and exec_block :: "nat \<Rightarrow> dart_class list \<Rightarrow> (string \<times> dart_value) list \<Rightarrow> dart_stmt list
        \<Rightarrow> lcm_buffer \<Rightarrow> flow outcome"
  and exec_for :: "nat \<Rightarrow> dart_class list \<Rightarrow> (string \<times> dart_value) list \<Rightarrow> string \<Rightarrow> int
        \<Rightarrow> dart_expr \<Rightarrow> dart_stmt list \<Rightarrow> lcm_buffer \<Rightarrow> flow outcome"
  and exec_text :: "nat \<Rightarrow> dart_class list \<Rightarrow> (string \<times> dart_value) list \<Rightarrow> token list
        \<Rightarrow> lcm_buffer \<Rightarrow> flow outcome"
where
  "eval_expr 0 P env e b = Fail OutOfFuel b"
| "eval_expr (Suc n) P env (EInt k) b = Ok (VInt k) b"
| "eval_expr (Suc n) P env (EStr s) b = Ok (VString s) b"
| "eval_expr (Suc n) P env (EName x) b = Ok (name_value env x) b"
| "eval_expr (Suc n) P env (EProp a p) b =
     obind (eval_expr n P env a b) (\<lambda>v b1. property_value v p b1)"
| "eval_expr (Suc n) P env (EIndex a i) b =
     obind (eval_expr n P env a b) (\<lambda>v b1.
     obind (eval_expr n P env i b1) (\<lambda>k b2. index_value v k b2))"
| "eval_expr (Suc n) P env (EBin op x y) b =
     obind (eval_expr n P env x b) (\<lambda>u b1.
     obind (eval_expr n P env y b1) (\<lambda>w b2. binop op u w b2))"
| "eval_expr (Suc n) P env (ECond c x y) b =
     obind (eval_expr n P env c b) (\<lambda>v b1.
       case v of
         VBool t \<Rightarrow> if t then eval_expr n P env x b1 else eval_expr n P env y b1
       | _ \<Rightarrow> Fail TypeError b1)"
| "eval_expr (Suc n) P env (ELambda body) b = Ok (VLambda env body) b"
| "eval_expr (Suc n) P env (EClosure ss) b = Ok (VClosure env ss) b"
| "eval_expr (Suc n) P env (ECall (EProp r m) as) b =
     obind (eval_expr n P env r b) (\<lambda>recv b1.
     obind (eval_args n P env as b1) (\<lambda>vs b2. call_method n P recv m (map snd vs) b2))"
| "eval_expr (Suc n) P env (ECall f as) b =
     obind (eval_expr n P env f b) (\<lambda>fv b1.
     obind (eval_args n P env as b1) (\<lambda>vs b2.
       case fv of
         VClosure cenv ss \<Rightarrow>
           if vs = [] then obind (exec_block n P cenv ss b2) (\<lambda>fl b3. Ok (flow_value fl) b3)
           else Fail TypeError b2
       | VStatic c \<Rightarrow>
           if c = ''Exception'' \<or> find_class P c \<noteq> None then Ok (VObject c vs) b2
           else Fail (NoSuchMethod c) b2
       | _ \<Rightarrow> Fail TypeError b2))"
| "eval_args 0 P env as b = Fail OutOfFuel b"
| "eval_args (Suc n) P env [] b = Ok [] b"
| "eval_args (Suc n) P env ((nm, e) # r) b =
     obind (eval_expr n P env e b) (\<lambda>v b1.
     obind (eval_args n P env r b1) (\<lambda>vs b2. Ok ((nm, v) # vs) b2))"
| "call_method 0 P recv m vs b = Fail OutOfFuel b"
| "call_method (Suc n) P recv m vs b =
     (case recv of
        VBuffer \<Rightarrow> buffer_call m vs b
      | VStatic c \<Rightarrow>
          (case find_class P c of
             Some cls \<Rightarrow>
               if m = ''decode'' \<and> vs = [VBuffer] then
                 obind (exec_text n P ((''buf'', VBuffer) # static_env cls) (lex (dc_decode cls)) b)
                   (\<lambda>fl b1. Ok (flow_value fl) b1)
               else Fail (NoSuchMethod m) b
           | None \<Rightarrow>
               if c = ''utf8'' then utf8_call m vs b
               else if c = ''List'' then
                 (case vs of
                    [VInt k, VLambda cenv body] \<Rightarrow>
                      if m \<noteq> ''generate'' then Fail (NoSuchMethod m) b
                      else if k < 0 then Fail RangeError b
                      else generate n P cenv body (nat k) [] b
                  | _ \<Rightarrow> Fail (NoSuchMethod m) b)
               else Fail (NoSuchMethod c) b)
      | VObject c fs \<Rightarrow>
          (case find_class P c of
             None \<Rightarrow> Fail (NoSuchMethod c) b
           | Some cls \<Rightarrow>
               if m = ''encode'' \<and> vs = [VBuffer] then
                 obind (exec_text n P ((''buf'', VBuffer) # fs @ static_env cls)
                          (lex (dc_encode cls)) b)
                   (\<lambda>fl b1. Ok VNull b1)
               else Fail (NoSuchMethod m) b)
      | _ \<Rightarrow> Fail (NoSuchMethod m) b)"
| "generate 0 P env body k acc b = Fail OutOfFuel b"
| "generate (Suc n) P env body k acc b =
     (if k = 0 then Ok (VList (rev acc)) b
      else obind (eval_expr n P env body b) (\<lambda>v b1. generate n P env body (k - 1) (v # acc) b1))"
| "exec_stmt 0 P env s b = Fail OutOfFuel b"
| "exec_stmt (Suc n) P env (SFinal x e) b =
     obind (eval_expr n P env e b) (\<lambda>v b1. Ok (Next ((x, v) # env)) b1)"
| "exec_stmt (Suc n) P env (SExpr e) b =
     obind (eval_expr n P env e b) (\<lambda>v b1. Ok (Next env) b1)"
| "exec_stmt (Suc n) P env (SBlock ss) b =
     obind (exec_block n P env ss b) (\<lambda>fl b1.
       case fl of Next env1 \<Rightarrow> Ok (Next env) b1 | Returned v \<Rightarrow> Ok (Returned v) b1)"
| "exec_stmt (Suc n) P env (SFor i e0 c ss) b =
     obind (eval_expr n P env e0 b) (\<lambda>v b1.
       case v of VInt k \<Rightarrow> exec_for n P env i k c ss b1 | _ \<Rightarrow> Fail TypeError b1)"
| "exec_stmt (Suc n) P env (SIf c ss) b =
     obind (eval_expr n P env c b) (\<lambda>v b1.
       case v of
         VBool t \<Rightarrow>
           if t then
             obind (exec_block n P env ss b1) (\<lambda>fl b2.
               case fl of Next env1 \<Rightarrow> Ok (Next env) b2 | Returned w \<Rightarrow> Ok (Returned w) b2)
           else Ok (Next env) b1
       | _ \<Rightarrow> Fail TypeError b1)"
| "exec_stmt (Suc n) P env (SThrow e) b =
     obind (eval_expr n P env e b) (\<lambda>v b1. Fail (Thrown v) b1)"
| "exec_stmt (Suc n) P env (SReturn e) b =
     obind (eval_expr n P env e b) (\<lambda>v b1. Ok (Returned v) b1)"
| "exec_block 0 P env ss b = Fail OutOfFuel b"
| "exec_block (Suc n) P env [] b = Ok (Next env) b"
| "exec_block (Suc n) P env (s # r) b =
     obind (exec_stmt n P env s b) (\<lambda>fl b1.
       case fl of Next env1 \<Rightarrow> exec_block n P env1 r b1 | Returned v \<Rightarrow> Ok (Returned v) b1)"
| "exec_for 0 P env i k c ss b = Fail OutOfFuel b"
| "exec_for (Suc n) P env i k c ss b =
     obind (eval_expr n P ((i, VInt k) # env) c b) (\<lambda>v b1.
       case v of
         VBool t \<Rightarrow>
           if t then
             obind (exec_block n P ((i, VInt k) # env) ss b1) (\<lambda>fl b2.
               case fl of
                 Next env1 \<Rightarrow> exec_for n P env i (k + 1) c ss b2
               | Returned w \<Rightarrow> Ok (Returned w) b2)
           else Ok (Next env) b1
       | _ \<Rightarrow> Fail TypeError b1)"
| "exec_text 0 P env ts b = Fail OutOfFuel b"
| "exec_text (Suc n) P env ts b =
     (if ts = [] then Ok (Next env) b
      else case p_stmt (parse_fuel ts) ts of
             None \<Rightarrow> Fail SyntaxError b
           | Some (s, r) \<Rightarrow>
               obind (exec_stmt n P env s b) (\<lambda>fl b1.
                 case fl of
                   Next env1 \<Rightarrow> exec_text n P env1 r b1
                 | Returned v \<Rightarrow> Ok (Returned v) b1))"
  by pat_completeness auto
termination
  by (relation "measure (\<lambda>x. case x of
        Inl (Inl (Inl (n, _))) \<Rightarrow> n | Inl (Inl (Inr (n, _))) \<Rightarrow> n
      | Inl (Inr (Inl (n, _))) \<Rightarrow> n | Inl (Inr (Inr (n, _))) \<Rightarrow> n
      | Inr (Inl (Inl (n, _))) \<Rightarrow> n | Inr (Inl (Inr (n, _))) \<Rightarrow> n
      | Inr (Inr (Inl (n, _))) \<Rightarrow> n | Inr (Inr (Inr (n, _))) \<Rightarrow> n)") simp_all

subsection \<open>Encoding and decoding a message\<close>




text \<open>The bytes of the fingerprint of a struct, as they stand on the wire.\<close>

definition fingerprint_bytes :: "lcm_struct \<Rightarrow> 8 word list" where
  "fingerprint_bytes ls = be_bytes 8 (sint (fingerprint (ls_hash ls)))"

subsection \<open>More schemas\<close>

definition inner_s :: lcm_struct where
  "inner_s = simple_struct (plain_type ''Inner'') 0x0123456789abcdef [scalar_member ''int8_t'' ''v'']"

definition outer_s :: lcm_struct where
  "outer_s = simple_struct (plain_type ''Outer'') 0xfedcba9876543210 [scalar_member ''Inner'' ''a'']"

definition text_s :: lcm_struct where
  "text_s = simple_struct (plain_type ''Text'') 0x1111111111111111 [scalar_member ''string'' ''s'']"

definition grid_s :: lcm_struct where
  "grid_s = simple_struct (plain_type ''Grid'') 0x2222222222222222
     [array_member ''int32_t'' ''a'' [''2'', ''3'']]"

definition samples_s :: lcm_struct where
  "samples_s = simple_struct (plain_type ''Samples'') 0x3333333333333333
     [scalar_member ''int32_t'' ''n'', array_member ''int32_t'' ''data'' [''n'']]"

definition pair_s :: lcm_struct where
  "pair_s = simple_struct (plain_type ''Pair'') 0x4444444444444444
     [scalar_member ''byte'' ''tag'', scalar_member ''int32_t'' ''value'',
      scalar_member ''boolean'' ''flag'', scalar_member ''int16_t'' ''small'']"

definition example_program :: "dart_class list" where
  "example_program =
     map dart_class_of [inner_s, outer_s, text_s, grid_s, samples_s, pair_s, point_t]"


section \<open>Well-formed schemas\<close>

text \<open>
  The emitter copies member names and dimension sizes into the Dart text as they are. The
  statements about running that text are for schemas whose names are identifiers, and
  whose sizes are decimal literals or identifiers.
\<close>

definition is_idchar :: "char \<Rightarrow> bool" where
  "is_idchar c = (is_alpha c \<or> is_digit c)"

definition ident_ok :: "string \<Rightarrow> bool" where
  "ident_ok s = (s \<noteq> [] \<and> is_alpha (hd s) \<and> list_all is_idchar s)"

definition number_ok :: "string \<Rightarrow> bool" where
  "number_ok s = (s \<noteq> [] \<and> list_all is_digit s)"




section \<open>The shape of the generated statements\<close>

text \<open>
  The statements the emitter writes for one member, as text, as tokens and as parsed
  statements. \<open>accessor name D\<close> is the string the emitter builds for the element of
  an array of \<open>D\<close> dimensions: the name followed by \<open>[i0]...[iD-1]\<close>.
\<close>

definition accessor :: "string \<Rightarrow> nat \<Rightarrow> string" where
  "accessor name D = name @ concat (map (\<lambda>dim. ''[i'' @ show_nat dim @ '']'') [0..<D])"





















section \<open>Notions used in the proofs\<close>



text \<open>A property of the fuel that holds from some amount on.\<close>

definition enough :: "(nat \<Rightarrow> bool) \<Rightarrow> bool" where
  "enough Q = (\<exists>N. \<forall>m\<ge>N. Q m)"



section \<open>The wire format\<close>











section \<open>A schema with members of every kind\<close>


section \<open>Fingerprint\<close>

lemma signed_shift_low_bit: "signed_drop_bit 63 h AND 1 = drop_bit 63 h AND (1 :: 64 word)"
  by (rule bit_word_eqI) (auto simp add: bit_simps)

lemma fingerprint_or: "fingerprint h = push_bit 1 h OR (drop_bit 63 h AND 1)"
proof -
  have "push_bit 1 h + (drop_bit 63 h AND 1) = push_bit 1 h OR (drop_bit 63 h AND 1)"
  proof (rule disjunctive_add)
    fix n
    show "\<not> bit (push_bit 1 h) n \<or> \<not> bit (drop_bit 63 h AND 1) n"
      by (cases "n = 0")
        (simp_all add: bit_push_bit_iff bit_and_iff bit_1_iff del: push_bit_of_1 push_bit_Suc)
  qed
  then show ?thesis
    by (simp add: fingerprint_def signed_shift_low_bit del: push_bit_of_1 push_bit_Suc)
qed

lemma or_is_rotation: "push_bit 1 h OR (drop_bit 63 h AND 1) = word_rotl 1 (h :: 64 word)"
proof (rule bit_word_eqI)
  fix n assume n: "n < LENGTH(64)"
  show "bit (push_bit 1 h OR (drop_bit 63 h AND 1)) n = bit (word_rotl 1 h) n"
  proof (cases "n = 0")
    case True
    then show ?thesis
      by (simp add: bit_or_iff bit_push_bit_iff bit_and_iff bit_drop_bit_eq bit_word_rotl_iff
          bit_1_iff del: push_bit_of_1 push_bit_Suc)
  next
    case False
    then obtain m where m: "n = Suc m" by (cases n) auto
    with n have m63: "m < 63" by simp
    have "Suc m + 63 = m + 64" by simp
    then have e: "(Suc m + 63) mod 64 = m" using m63 by (simp only: mod_add_self2) simp
    have l: "bit (push_bit 1 h OR (drop_bit 63 h AND 1)) (Suc m) = bit h m"
      using m63
      by (simp add: bit_or_iff bit_push_bit_iff bit_and_iff bit_1_iff
          del: push_bit_of_1 push_bit_Suc)
    have r: "bit (word_rotl 1 h) (Suc m) = bit h ((Suc m + 63) mod 64)"
      using m63 by (simp only: bit_word_rotl_iff) simp
    show ?thesis unfolding m l r e ..
  qed
qed

text \<open>
  C7. The fingerprint constant written for a struct is the hash rotated left by one bit,
  that is \<open>(h << 1) | ((h >> 63) & 1)\<close> on 64 bits, and the line that carries it is a
  function of the hash alone.
\<close>

theorem fingerprint_is_rotation:
  "fingerprint h = word_rotl 1 h
   \<and> fingerprint h = push_bit 1 h OR (drop_bit 63 h AND 1)
   \<and> emit_fingerprint_const ls =
       emit 1 (''static const int LCM_FINGERPRINT = 0x'' @ hex16 (word_rotl 1 (ls_hash ls)) @ '';'')
       @ NL"
  by (simp only: emit_fingerprint_const_def fingerprint_or or_is_rotation)

section \<open>Type names\<close>

lemma map_type_dart_other: "t \<notin> set primitive_names \<Longrightarrow> map_type_dart t = t"
  by (simp add: primitive_names_def map_type_dart_def)

lemma emit_encode_one_other:
  "t \<notin> set primitive_names \<Longrightarrow> emit_encode_one t acc n = emit n (acc @ ''.encode(buf);'')"
  by (simp add: primitive_names_def emit_encode_one_def)

lemma emit_decode_one_other:
  "t \<notin> set primitive_names \<Longrightarrow> emit_decode_one t acc n = emit n (acc @ t @ ''.decode(buf);'')"
  by (simp add: primitive_names_def emit_decode_one_def map_type_dart_def)

lemma emit_decode_scalar_rhs_other:
  "t \<notin> set primitive_names \<Longrightarrow> emit_decode_scalar_rhs t = emit_end (t @ ''.decode(buf);'')"
  by (simp add: primitive_names_def emit_decode_scalar_rhs_def map_type_dart_def)

lemma emit_decode_element_other:
  "t \<notin> set primitive_names \<Longrightarrow> emit_decode_element t = emit_continue (t @ ''.decode(buf)'')"
  by (simp add: primitive_names_def emit_decode_element_def map_type_dart_def)

lemma emit_struct_status:
  "fopen_w w path = Some k \<Longrightarrow> fst (emit_struct w ls path fs) = 0"
  by (cases k) (simp_all add: emit_struct_def)

text \<open>
  C8. A type name that is none of the nine primitive names raises no error: the type
  mapper returns it unchanged, the emitted encode statement calls \<open>encode\<close> on the
  value, the emitted decode expression (in \<^verbatim>\<open>emit_decode_one\<close> and in both dispatches
  of \<^verbatim>\<open>emit_struct\<close>) calls the static \<open>decode\<close> of that name, and
  \<^verbatim>\<open>emit_struct\<close> returns 0 whenever its file opens, whatever the member types are.
\<close>

theorem unmapped_type_is_struct_reference:
  assumes "t \<notin> set primitive_names" and "fopen_w w path = Some k"
  shows "map_type_dart t = t
    \<and> emit_encode_one t acc n = emit n (acc @ ''.encode(buf);'')
    \<and> emit_decode_one t lhs n = emit n (lhs @ t @ ''.decode(buf);'')
    \<and> emit_decode_scalar_rhs t = emit_end (t @ ''.decode(buf);'')
    \<and> emit_decode_element t = emit_continue (t @ ''.decode(buf)'')
    \<and> fst (emit_struct w ls path fs) = 0"
  using assms
  by (simp only: map_type_dart_other emit_encode_one_other emit_decode_one_other
      emit_decode_scalar_rhs_other emit_decode_element_other emit_struct_status simp_thms)

theorem unmapped_type_is_struct_reference_witness:
  "''point_t'' \<notin> set primitive_names
   \<and> fopen_w open_world ''out/point_t.g.dart'' = Some Accepting
   \<and> map_type_dart ''point_t'' = ''point_t''
   \<and> emit_encode_one ''point_t'' ''p'' 2 = emit 2 ''p.encode(buf);''
   \<and> emit_decode_one ''point_t'' ''p = '' 2 = emit 2 ''p = point_t.decode(buf);''
   \<and> emit_decode_scalar_rhs ''point_t'' = emit_end ''point_t.decode(buf);''
   \<and> emit_decode_element ''point_t'' = emit_continue ''point_t.decode(buf)''
   \<and> fst (emit_struct open_world
        (simple_struct (plain_type ''line_t'') 7 [scalar_member ''point_t'' ''p''])
        ''out/point_t.g.dart'' empty_fs) = 0"
proof -
  have a: "''point_t'' \<notin> set primitive_names" by (simp add: primitive_names_def)
  have b: "fopen_w open_world ''out/point_t.g.dart'' = Some Accepting"
    by (simp add: open_world_def)
  show ?thesis
    using a b unmapped_type_is_struct_reference [OF a b, where acc = "''p''" and n = 2
        and lhs = "''p = ''" and fs = empty_fs
        and ls = "simple_struct (plain_type ''line_t'') 7 [scalar_member ''point_t'' ''p'']"]
    by simp
qed

section \<open>Class names and paths\<close>

lemma of_char_toupper: "islower c \<Longrightarrow> (of_char (toupper c) :: nat) = of_char c - 32"
proof -
  assume l: "islower c"
  define n where "n = (of_char c :: nat)"
  from l have n: "97 \<le> n" "n \<le> 122" by (simp_all add: islower_def n_def)
  then have "n - 32 < 256" by arith
  then have "(of_char (char_of (n - 32)) :: nat) = n - 32" by simp
  with n show ?thesis by (simp add: toupper_def Let_def n_def [symmetric])
qed

lemma islower_bounds: "islower c \<Longrightarrow> 97 \<le> (of_char c :: nat) \<and> (of_char c :: nat) \<le> 122"
  by (simp add: islower_def)

lemma toupper_lower: "islower c \<Longrightarrow> toupper c \<noteq> c"
proof
  assume l: "islower c" and e: "toupper c = c"
  from of_char_toupper [OF l] e have "(of_char c :: nat) = of_char c - 32" by simp
  with islower_bounds [OF l] show False by arith
qed

lemma toupper_not_underscore: "c \<noteq> CHR ''_'' \<Longrightarrow> toupper c \<noteq> CHR ''_''"
proof (cases "islower c")
  case True
  from of_char_toupper [OF True] islower_bounds [OF True]
  have "(of_char (toupper c) :: nat) \<noteq> 95" by arith
  then show ?thesis by auto
next
  case False
  assume "c \<noteq> CHR ''_''"
  with False show ?thesis by (auto simp add: toupper_def islower_def Let_def)
qed

lemma pascal_loop_no_underscore: "CHR ''_'' \<notin> set (pascal_loop cap s)"
proof (induction s arbitrary: cap)
  case Nil
  show ?case by simp
next
  case (Cons c cs)
  show ?case
    using Cons.IH [of True] Cons.IH [of False] toupper_not_underscore [of c]
    by (cases "c = CHR ''_''") auto
qed

lemma pascal_loop_spec:
  "pascal_loop (p = CHR ''_'') s =
     map (\<lambda>(p, c). if p = CHR ''_'' then toupper c else c)
         (filter (\<lambda>(p, c). c \<noteq> CHR ''_'') (zip (p # s) s))"
proof (induction s arbitrary: p)
  case Nil
  show ?case by simp
next
  case (Cons c cs)
  show ?case
    using Cons.IH [of c] Cons.IH [of "CHR ''_''"] by (cases "c = CHR ''_''") simp_all
qed

lemma to_pascal_case_spec: "to_pascal_case s = pascal_spec s"
  using pascal_loop_spec [of "CHR ''_''" s] by (simp add: to_pascal_case_def pascal_spec_def)

lemma to_pascal_case_differs:
  assumes "CHR ''_'' \<in> set s \<or> (s \<noteq> [] \<and> islower (hd s))"
  shows "to_pascal_case s \<noteq> s"
proof (cases "CHR ''_'' \<in> set s")
  case True
  then show ?thesis
    using pascal_loop_no_underscore [of True s] by (auto simp add: to_pascal_case_def)
next
  case False
  with assms obtain c cs where s: "s = c # cs" and l: "islower c" by (cases s) auto
  from False s have "c \<noteq> CHR ''_''" by auto
  then show ?thesis using toupper_lower [OF l] by (simp add: to_pascal_case_def s)
qed

lemma emit_dart_loop_single:
  assumes "fopen_w w (output_path dp ls) = Some Accepting"
    and "lcm_needs_generation w (ls_lcmfile ls) (output_path dp ls)"
  shows "fs_files (snd (emit_dart_loop w dp mk [ls] fs))
     = (output_path dp ls, emit_struct_text ls) # fs_files fs"
  using assms by (simp add: emit_struct_def Let_def make_dirs_for_file_def)

lemma emit_dart_single:
  assumes "dp = (if length dp0 = 0 then ''.'' else dp0)"
    and "fopen_w w (output_path dp ls) = Some Accepting"
    and "lcm_needs_generation w (ls_lcmfile ls) (output_path dp ls)"
  shows "fs_files (snd (emit_dart w \<lparr>opt_dart_path = dp0, opt_dart_mkdir = mk, lcm_structs = [ls]\<rparr> fs))
     = (output_path dp ls, emit_struct_text ls) # fs_files fs"
  using assms(2,3) unfolding emit_dart_def Let_def assms(1)
  by (simp only: lcmgen.simps emit_dart_loop_single)

lemma length_pascal_loop: "length (pascal_loop cap s) \<le> length s"
proof (induction s arbitrary: cap)
  case Nil
  show ?case by simp
next
  case (Cons c cs)
  show ?case using Cons.IH [of True] Cons.IH [of False] by (simp add: le_SucI)
qed

lemma class_name_differs_from_reference:
  assumes "CHR ''_'' \<in> set s \<or> (s \<noteq> [] \<and> islower (hd s))"
  shows "to_pascal_case s \<noteq> q @ s"
proof (cases "q = []")
  case True
  with to_pascal_case_differs [OF assms] show ?thesis by simp
next
  case False
  then have "length s < length (q @ s)" by (cases q) simp_all
  moreover have "length (to_pascal_case s) \<le> length s"
    unfolding to_pascal_case_def by (rule length_pascal_loop)
  ultimately have "length (to_pascal_case s) \<noteq> length (q @ s)" by arith
  then show ?thesis by auto
qed

text \<open>
  C10, as amended. The class is declared under the PascalCase form of the short name: the
  unit starts with the preamble, the comment and the line
  \<open>class <PascalCase name> implements LcmMessage {\<close>. The file is written at the
  path built from the short name as it is, followed by \<open>.g.dart\<close>, as long as that
  path fits the 1023 characters of the path buffer. When the short name has an underscore
  or starts with a lower-case letter, the declared class name differs from every name that
  ends with the short name (the short name itself, or the short name behind its package),
  and that is the name a member of this type is declared with, and the name its decode is
  called on.
\<close>

theorem class_name_is_pascal_case_path_is_raw:
  assumes "CHR ''_'' \<in> set (tn_shortname (ls_structname ls))
           \<or> (tn_shortname (ls_structname ls) \<noteq> []
               \<and> islower (hd (tn_shortname (ls_structname ls))))"
    and "tn_lctypename (lm_type lm) = q @ tn_shortname (ls_structname ls)"
    and "tn_lctypename (lm_type lm) \<notin> set primitive_names"
    and "lm_dimensions lm = []"
    and "dp = (if length dp0 = 0 then ''.'' else dp0)"
    and "length (unit_path dp ls) \<le> 1023"
    and "fopen_w w (unit_path dp ls) = Some Accepting"
    and "lcm_needs_generation w (ls_lcmfile ls) (unit_path dp ls)"
  shows "emit_struct_text ls =
           emit_preamble
           @ emit_comment 0 (ls_comment ls)
           @ emit 0 (''class '' @ pascal_spec (tn_shortname (ls_structname ls))
                     @ '' implements LcmMessage {'')
           @ emit_fingerprint_const ls @ emit_constants ls @ emit_fields ls
           @ emit_constructor ls @ emit_fingerprint_getter
           @ emit_encode_method ls @ emit_decode_method ls @ emit 0 ''}''
    \<and> output_path dp ls = unit_path dp ls
    \<and> fs_files (snd (emit_dart w
          \<lparr>opt_dart_path = dp0, opt_dart_mkdir = mk, lcm_structs = [ls]\<rparr> fs))
        = (unit_path dp ls, emit_struct_text ls) # fs_files fs
    \<and> class_name ls = pascal_spec (tn_shortname (ls_structname ls))
    \<and> class_name ls \<noteq> tn_lctypename (lm_type lm)
    \<and> emit_field lm =
        emit_comment 1 (lm_comment lm)
        @ emit 1 (tn_lctypename (lm_type lm) @ '' '' @ lm_membername lm @ '';'')
    \<and> emit_decode_member lm =
        emit_start 2 (''final '' @ lm_membername lm @ '' = '')
        @ emit_end (tn_lctypename (lm_type lm) @ ''.decode(buf);'')"
proof -
  have 1: "emit_struct_text ls =
           emit_preamble
           @ emit_comment 0 (ls_comment ls)
           @ emit 0 (''class '' @ pascal_spec (tn_shortname (ls_structname ls))
                     @ '' implements LcmMessage {'')
           @ emit_fingerprint_const ls @ emit_constants ls @ emit_fields ls
           @ emit_constructor ls @ emit_fingerprint_getter
           @ emit_encode_method ls @ emit_decode_method ls @ emit 0 ''}''"
    by (simp add: emit_struct_text_def emit_class_open_def class_name_def to_pascal_case_spec)
  have "output_path dp ls = take 1023 (unit_path dp ls)"
    by (simp add: output_path_def unit_path_def Let_def dots_to_slashes_def del: take_append)
  with assms(6) have 2: "output_path dp ls = unit_path dp ls"
    by simp
  have 3: "fs_files (snd (emit_dart w
          \<lparr>opt_dart_path = dp0, opt_dart_mkdir = mk, lcm_structs = [ls]\<rparr> fs))
        = (unit_path dp ls, emit_struct_text ls) # fs_files fs"
    using emit_dart_single [OF assms(5), of w ls mk fs] assms(7,8) by (simp add: 2)
  have 4: "class_name ls = pascal_spec (tn_shortname (ls_structname ls))"
    by (simp add: class_name_def to_pascal_case_spec)
  have 5: "class_name ls \<noteq> tn_lctypename (lm_type lm)"
    unfolding class_name_def assms(2) using assms(1) by (rule class_name_differs_from_reference)
  have 6: "emit_field lm =
        emit_comment 1 (lm_comment lm)
        @ emit 1 (tn_lctypename (lm_type lm) @ '' '' @ lm_membername lm @ '';'')"
    using assms(3,4) by (simp add: emit_field_def map_type_dart_other)
  have 7: "emit_decode_member lm =
        emit_start 2 (''final '' @ lm_membername lm @ '' = '')
        @ emit_end (tn_lctypename (lm_type lm) @ ''.decode(buf);'')"
    using assms(3,4) by (simp add: emit_decode_member_def emit_decode_scalar_rhs_other)
  from 1 2 3 4 5 6 7 show ?thesis by blast
qed

theorem class_name_is_pascal_case_path_is_raw_witness:
  "CHR ''_'' \<in> set (tn_shortname (ls_structname point_t))
   \<and> tn_shortname (ls_structname point_t) = ''point_t''
   \<and> length (unit_path ''.'' point_t) \<le> 1023
   \<and> class_name point_t = ''PointT''
   \<and> class_name point_t \<noteq> ''geo.point_t''
   \<and> take 73 (drop 194 (emit_struct_text point_t))
      = ''class PointT implements LcmMessage {'' @ NL @ ''  static const int LCM_FINGERPRINT =''
   \<and> output_path ''.'' point_t = ''./geo/point_t.g.dart''
   \<and> fs_files (snd (emit_dart open_world
        \<lparr>opt_dart_path = [], opt_dart_mkdir = True, lcm_structs = [point_t]\<rparr> empty_fs))
      = [(''./geo/point_t.g.dart'', emit_struct_text point_t)]
   \<and> emit_field (qualified_member ''geo.point_t'' ''geo'' ''point_t'' ''p'') = emit 1 ''geo.point_t p;''
   \<and> emit_decode_member (qualified_member ''geo.point_t'' ''geo'' ''point_t'' ''p'')
      = emit 2 ''final p = geo.point_t.decode(buf);''"
proof -
  let ?lm = "qualified_member ''geo.point_t'' ''geo'' ''point_t'' ''p''"
  have s: "tn_shortname (ls_structname point_t) = ''point_t''"
    by (simp add: point_t_def simple_struct_def)
  have p: "tn_package (ls_structname point_t) = ''geo''"
    by (simp add: point_t_def simple_struct_def)
  have u: "unit_path ''.'' point_t = ''./geo/point_t.g.dart''"
    by code_simp
  have h1: "CHR ''_'' \<in> set (tn_shortname (ls_structname point_t))
           \<or> (tn_shortname (ls_structname point_t) \<noteq> []
               \<and> islower (hd (tn_shortname (ls_structname point_t))))"
    by (simp add: s)
  have h2: "tn_lctypename (lm_type ?lm) = ''geo.'' @ tn_shortname (ls_structname point_t)"
    by (simp add: s qualified_member_def)
  have h3: "tn_lctypename (lm_type ?lm) \<notin> set primitive_names"
    by (simp add: qualified_member_def primitive_names_def)
  have h4: "lm_dimensions ?lm = []"
    by (simp add: qualified_member_def)
  have h5: "''.'' = (if length ([] :: string) = 0 then ''.'' else [])"
    by simp
  have h6: "length (unit_path ''.'' point_t) \<le> 1023"
    by (simp add: u)
  have h7: "fopen_w open_world (unit_path ''.'' point_t) = Some Accepting"
    by (simp add: open_world_def)
  have h8: "lcm_needs_generation open_world (ls_lcmfile point_t) (unit_path ''.'' point_t)"
    by (simp add: open_world_def)
  have c: "class_name point_t = ''PointT''"
    by code_simp
  have t: "take 73 (drop 194 (emit_struct_text point_t))
      = ''class PointT implements LcmMessage {'' @ NL @ ''  static const int LCM_FINGERPRINT =''"
    by code_simp
  have l: "tn_lctypename (lm_type ?lm) = ''geo.point_t''" "lm_membername ?lm = ''p''"
    "lm_comment ?lm = None"
    by (simp_all add: qualified_member_def)
  note main = class_name_is_pascal_case_path_is_raw [OF h1 h2 h3 h4 h5 h6 h7 h8,
        where mk = True and fs = empty_fs]
  note r = main [THEN conjunct2]
  note r3 = r [THEN conjunct2]
  note r4 = r3 [THEN conjunct2]
  note r5 = r4 [THEN conjunct2]
  note r6 = r5 [THEN conjunct2]
  from r [THEN conjunct1] have a: "output_path ''.'' point_t = ''./geo/point_t.g.dart''"
    by (simp add: u)
  from r3 [THEN conjunct1] have b: "fs_files (snd (emit_dart open_world
        \<lparr>opt_dart_path = [], opt_dart_mkdir = True, lcm_structs = [point_t]\<rparr> empty_fs))
      = [(''./geo/point_t.g.dart'', emit_struct_text point_t)]"
    by (simp add: u empty_fs_def)
  from r5 [THEN conjunct1] have d: "class_name point_t \<noteq> ''geo.point_t''"
    by (simp add: l)
  from r6 [THEN conjunct1] have e: "emit_field ?lm = emit 1 ''geo.point_t p;''"
    by (simp add: l emit_comment_def)
  from r6 [THEN conjunct2] have f: "emit_decode_member ?lm = emit 2 ''final p = geo.point_t.decode(buf);''"
    by (simp add: l emit_def emit_start_def emit_end_def)
  from s h6 c t a b d e f show ?thesis by simp
qed

text \<open>
  C10, the claim as it stands, fails for a long output directory: the path is whatever
  fits the buffer, and with a directory of 1023 characters neither the short name nor
  \<open>.g.dart\<close> is part of it; the unit is written under the name of the directory.
\<close>

theorem long_path_loses_the_short_name:
  "output_path (replicate 1023 (CHR ''d'')) point_t = replicate 1023 (CHR ''d'')
   \<and> CHR ''.'' \<notin> set (output_path (replicate 1023 (CHR ''d'')) point_t)
   \<and> fs_files (snd (emit_dart open_world
        \<lparr>opt_dart_path = replicate 1023 (CHR ''d''), opt_dart_mkdir = False,
         lcm_structs = [point_t]\<rparr> empty_fs))
      = [(replicate 1023 (CHR ''d''), emit_struct_text point_t)]"
proof -
  have o: "output_path (replicate 1023 (CHR ''d'')) point_t = replicate 1023 (CHR ''d'')"
    by (simp add: output_path_def Let_def)
  have f: "fs_files (snd (emit_dart open_world
        \<lparr>opt_dart_path = replicate 1023 (CHR ''d''), opt_dart_mkdir = False,
         lcm_structs = [point_t]\<rparr> empty_fs))
      = [(replicate 1023 (CHR ''d''), emit_struct_text point_t)]"
    by (simp add: emit_dart_def Let_def o emit_struct_def open_world_def empty_fs_def)
  from o f show ?thesis by simp
qed


section \<open>Failures while writing\<close>

lemma emit_dart_loop_append:
  "emit_dart_loop w dp mk pre fs = (0, fs1) \<Longrightarrow>
   emit_dart_loop w dp mk (pre @ xs) fs = emit_dart_loop w dp mk xs fs1"
proof (induction pre arbitrary: fs)
  case Nil
  then show ?case by simp
next
  case (Cons a pre)
  then show ?case
    by (auto simp add: Let_def split: if_splits prod.splits)
qed

lemma emit_dart_loop_open_fails:
  assumes "fopen_w w (output_path dp ls) = None"
    and "lcm_needs_generation w (ls_lcmfile ls) (output_path dp ls)"
  shows "emit_dart_loop w dp mk (ls # rest) fs =
    (- 1, (if mk then make_dirs_for_file (output_path dp ls) fs else fs)
            \<lparr>fs_stderr := fs_stderr fs @ [output_path dp ls]\<rparr>)"
  using assms by (simp add: Let_def emit_struct_def make_dirs_for_file_def)

lemma emit_struct_rejecting:
  "fopen_w w p = Some Rejecting \<Longrightarrow>
   emit_struct w ls p fs = (0, fs\<lparr>fs_files := (p, []) # fs_files fs\<rparr>)"
  by (simp add: emit_struct_def)

text \<open>
  C9, as the code has it. When \<^verbatim>\<open>fopen\<close> fails for a struct that needs generation,
  \<^verbatim>\<open>emit_dart\<close> returns \<open>-1\<close> at once: the result is that of the batch cut
  after this struct, nothing is written for it or for any later struct, and its path is
  reported. A stream that opens but rejects every write is not noticed:
  \<^verbatim>\<open>emit_struct\<close> returns 0 for it.
\<close>

theorem emit_dart_stops_when_open_fails:
  assumes "lcm_structs g = pre @ ls # rest"
    and "dp = (if length (opt_dart_path g) = 0 then ''.'' else opt_dart_path g)"
    and "emit_dart_loop w dp (opt_dart_mkdir g) pre fs = (0, fs1)"
    and "fopen_w w (output_path dp ls) = None"
    and "lcm_needs_generation w (ls_lcmfile ls) (output_path dp ls)"
  shows "fst (emit_dart w g fs) = - 1
    \<and> emit_dart w g fs = emit_dart w (g\<lparr>lcm_structs := pre @ [ls]\<rparr>) fs
    \<and> fs_files (snd (emit_dart w g fs)) = fs_files fs1
    \<and> fs_stderr (snd (emit_dart w g fs)) = fs_stderr fs1 @ [output_path dp ls]
    \<and> (\<forall>p ls' fs'. fopen_w w p = Some Rejecting \<longrightarrow>
          emit_struct w ls' p fs' = (0, fs'\<lparr>fs_files := (p, []) # fs_files fs'\<rparr>))"
proof -
  have a: "\<And>r. emit_dart_loop w dp (opt_dart_mkdir g) (pre @ ls # r) fs =
    (- 1, (if opt_dart_mkdir g then make_dirs_for_file (output_path dp ls) fs1 else fs1)
            \<lparr>fs_stderr := fs_stderr fs1 @ [output_path dp ls]\<rparr>)"
    by (simp only: emit_dart_loop_append [OF assms(3)] emit_dart_loop_open_fails [OF assms(4,5)])
  have b: "emit_dart w g fs = emit_dart_loop w dp (opt_dart_mkdir g) (pre @ ls # rest) fs"
    by (simp add: emit_dart_def assms(1,2))
  have c: "emit_dart w (g\<lparr>lcm_structs := pre @ [ls]\<rparr>) fs
           = emit_dart_loop w dp (opt_dart_mkdir g) (pre @ ls # []) fs"
    by (simp add: emit_dart_def assms(2))
  show ?thesis
    unfolding b c a by (simp add: make_dirs_for_file_def emit_struct_rejecting)
qed

theorem emit_dart_stops_when_open_fails_witness:
  "lcm_structs (batch [line_t, point_t, line_t]) = [line_t] @ point_t # [line_t]
   \<and> fopen_w blocked_world (output_path ''.'' point_t) = None
   \<and> fst (emit_dart blocked_world (batch [line_t, point_t, line_t]) empty_fs) = - 1
   \<and> emit_dart blocked_world (batch [line_t, point_t, line_t]) empty_fs
       = emit_dart blocked_world (batch [line_t, point_t]) empty_fs
   \<and> fs_files (snd (emit_dart blocked_world (batch [line_t, point_t, line_t]) empty_fs))
       = [(''./line_t.g.dart'', emit_struct_text line_t)]
   \<and> fs_stderr (snd (emit_dart blocked_world (batch [line_t, point_t, line_t]) empty_fs))
       = [''./geo/point_t.g.dart'']"
proof -
  let ?fs1 = "\<lparr>fs_files = [(''./line_t.g.dart'', emit_struct_text line_t)],
               fs_mkdirs = [''.''], fs_stderr = []\<rparr>"
  have o: "output_path ''.'' point_t = ''./geo/point_t.g.dart''"
    by code_simp
  have o2: "output_path ''.'' line_t = ''./line_t.g.dart''"
    by code_simp
  have h1: "lcm_structs (batch [line_t, point_t, line_t]) = [line_t] @ point_t # [line_t]"
    by (simp add: batch_def)
  have h2: "''.'' = (if length (opt_dart_path (batch [line_t, point_t, line_t])) = 0 then ''.''
                     else opt_dart_path (batch [line_t, point_t, line_t]))"
    by (simp add: batch_def)
  have h3: "emit_dart_loop blocked_world ''.'' (opt_dart_mkdir (batch [line_t, point_t, line_t]))
              [line_t] empty_fs = (0, ?fs1)"
    by (simp add: o2 batch_def blocked_world_def emit_struct_def make_dirs_for_file_def
        empty_fs_def Let_def)
  have h4: "fopen_w blocked_world (output_path ''.'' point_t) = None"
    by (simp add: o blocked_world_def)
  have h5: "lcm_needs_generation blocked_world (ls_lcmfile point_t) (output_path ''.'' point_t)"
    by (simp add: blocked_world_def)
  note t = emit_dart_stops_when_open_fails [OF h1 h2 h3 h4 h5]
  have c1: "fst (emit_dart blocked_world (batch [line_t, point_t, line_t]) empty_fs) = - 1"
    by (rule t [THEN conjunct1])
  have c2: "emit_dart blocked_world (batch [line_t, point_t, line_t]) empty_fs
       = emit_dart blocked_world (batch [line_t, point_t]) empty_fs"
    using t [THEN conjunct2, THEN conjunct1] by (simp add: batch_def)
  have c3: "fs_files (snd (emit_dart blocked_world (batch [line_t, point_t, line_t]) empty_fs))
       = [(''./line_t.g.dart'', emit_struct_text line_t)]"
    using t [THEN conjunct2, THEN conjunct2, THEN conjunct1] by simp
  have c4: "fs_stderr (snd (emit_dart blocked_world (batch [line_t, point_t, line_t]) empty_fs))
       = [''./geo/point_t.g.dart'']"
    using t [THEN conjunct2, THEN conjunct2, THEN conjunct2, THEN conjunct1] by (simp add: o)
  from h1 h4 c1 c2 c3 c4 show ?thesis by blast
qed

text \<open>
  C9 as stated fails for a unit that opens but cannot be written: the batch goes on to the
  next struct and ends with status 0.
\<close>

theorem write_failure_is_not_propagated:
  "fopen_w full_world (output_path ''.'' point_t) = Some Rejecting
   \<and> fst (emit_dart full_world (batch [point_t, line_t]) empty_fs) = 0
   \<and> fs_files (snd (emit_dart full_world (batch [point_t, line_t]) empty_fs))
       = [(''./line_t.g.dart'', emit_struct_text line_t), (''./geo/point_t.g.dart'', [])]"
proof -
  have o: "output_path ''.'' point_t = ''./geo/point_t.g.dart''"
    by code_simp
  have o2: "output_path ''.'' line_t = ''./line_t.g.dart''"
    by code_simp
  show ?thesis
    by (simp add: o o2 batch_def full_world_def emit_dart_def emit_struct_def
        make_dirs_for_file_def empty_fs_def Let_def)
qed


section \<open>Running generated code: tools\<close>



lemma option_bindE: "Option.bind x f = Some r \<Longrightarrow> (\<And>v. x = Some v \<Longrightarrow> f v = Some r \<Longrightarrow> P) \<Longrightarrow> P"
  by (cases x) auto
lemma option_bindI: "x = Some v \<Longrightarrow> f v = Some r \<Longrightarrow> Option.bind x f = Some r"
  by simp

lemma p_mono_Suc:
  "(p_primary n ts = Some re \<longrightarrow> p_primary (Suc n) ts = Some re)
 \<and> (p_postfix n e ts = Some re \<longrightarrow> p_postfix (Suc n) e ts = Some re)
 \<and> (p_args n ts = Some ra \<longrightarrow> p_args (Suc n) ts = Some ra)
 \<and> (p_term n ts = Some re \<longrightarrow> p_term (Suc n) ts = Some re)
 \<and> (p_sum_rest n e ts = Some re \<longrightarrow> p_sum_rest (Suc n) e ts = Some re)
 \<and> (p_cmp n ts = Some re \<longrightarrow> p_cmp (Suc n) ts = Some re)
 \<and> (p_expr n ts = Some re \<longrightarrow> p_expr (Suc n) ts = Some re)
 \<and> (p_stmt n ts = Some rs \<longrightarrow> p_stmt (Suc n) ts = Some rs)
 \<and> (p_block n ts = Some rb \<longrightarrow> p_block (Suc n) ts = Some rb)"
proof (induction n arbitrary: ts e re ra rs rb)
  case 0
  show ?case by simp
next
  case (Suc n)
  have primary: "p_primary n ts = Some r \<Longrightarrow> p_primary (Suc n) ts = Some r" for ts r
    using Suc by blast
  have postfix: "p_postfix n e ts = Some r \<Longrightarrow> p_postfix (Suc n) e ts = Some r" for ts e r
    using Suc by blast
  have args: "p_args n ts = Some r \<Longrightarrow> p_args (Suc n) ts = Some r" for ts r
    using Suc by blast
  have "term": "p_term n ts = Some r \<Longrightarrow> p_term (Suc n) ts = Some r" for ts r
    using Suc by blast
  have sum_rest: "p_sum_rest n e ts = Some r \<Longrightarrow> p_sum_rest (Suc n) e ts = Some r" for ts e r
    using Suc by blast
  have cmp: "p_cmp n ts = Some r \<Longrightarrow> p_cmp (Suc n) ts = Some r" for ts r
    using Suc by blast
  have expr: "p_expr n ts = Some r \<Longrightarrow> p_expr (Suc n) ts = Some r" for ts r
    using Suc by blast
  have stmt: "p_stmt n ts = Some r \<Longrightarrow> p_stmt (Suc n) ts = Some r" for ts r
    using Suc by blast
  have block: "p_block n ts = Some r \<Longrightarrow> p_block (Suc n) ts = Some r" for ts r
    using Suc by blast
  note ih = primary postfix args "term" sum_rest cmp expr stmt block
  have 1: "p_primary (Suc n) ts = Some re \<Longrightarrow> p_primary (Suc (Suc n)) ts = Some re"
    apply (subst p_primary.simps(2))
    apply (subst (asm) p_primary.simps(2))
    by (auto split: list.splits token.splits option.splits if_splits elim!: option_bindE intro!: option_bindI simp del: p_primary.simps p_postfix.simps p_args.simps p_term.simps p_sum_rest.simps p_cmp.simps p_expr.simps p_stmt.simps p_block.simps intro: ih)
  have 2: "p_postfix (Suc n) e ts = Some re \<Longrightarrow> p_postfix (Suc (Suc n)) e ts = Some re"
    apply (subst p_postfix.simps(2))
    apply (subst (asm) p_postfix.simps(2))
    by (auto split: list.splits token.splits option.splits if_splits elim!: option_bindE intro!: option_bindI simp del: p_primary.simps p_postfix.simps p_args.simps p_term.simps p_sum_rest.simps p_cmp.simps p_expr.simps p_stmt.simps p_block.simps intro: ih)
  have 3: "p_args (Suc n) ts = Some ra \<Longrightarrow> p_args (Suc (Suc n)) ts = Some ra"
    apply (subst p_args.simps(2))
    apply (subst (asm) p_args.simps(2))
    by (auto split: list.splits token.splits option.splits if_splits elim!: option_bindE intro!: option_bindI simp del: p_primary.simps p_postfix.simps p_args.simps p_term.simps p_sum_rest.simps p_cmp.simps p_expr.simps p_stmt.simps p_block.simps intro: ih)
  have 4: "p_term (Suc n) ts = Some re \<Longrightarrow> p_term (Suc (Suc n)) ts = Some re"
    apply (subst p_term.simps(2))
    apply (subst (asm) p_term.simps(2))
    by (auto split: list.splits token.splits option.splits if_splits elim!: option_bindE intro!: option_bindI simp del: p_primary.simps p_postfix.simps p_args.simps p_term.simps p_sum_rest.simps p_cmp.simps p_expr.simps p_stmt.simps p_block.simps intro: ih)
  have 5: "p_sum_rest (Suc n) e ts = Some re \<Longrightarrow> p_sum_rest (Suc (Suc n)) e ts = Some re"
    apply (subst p_sum_rest.simps(2))
    apply (subst (asm) p_sum_rest.simps(2))
    by (auto split: list.splits token.splits option.splits if_splits elim!: option_bindE intro!: option_bindI simp del: p_primary.simps p_postfix.simps p_args.simps p_term.simps p_sum_rest.simps p_cmp.simps p_expr.simps p_stmt.simps p_block.simps intro: ih)
  have 6: "p_cmp (Suc n) ts = Some re \<Longrightarrow> p_cmp (Suc (Suc n)) ts = Some re"
    apply (subst p_cmp.simps(2))
    apply (subst (asm) p_cmp.simps(2))
    by (auto split: list.splits token.splits option.splits if_splits elim!: option_bindE intro!: option_bindI simp del: p_primary.simps p_postfix.simps p_args.simps p_term.simps p_sum_rest.simps p_cmp.simps p_expr.simps p_stmt.simps p_block.simps intro: ih)
  have 7: "p_expr (Suc n) ts = Some re \<Longrightarrow> p_expr (Suc (Suc n)) ts = Some re"
    apply (subst p_expr.simps(2))
    apply (subst (asm) p_expr.simps(2))
    by (auto split: list.splits token.splits option.splits if_splits elim!: option_bindE intro!: option_bindI simp del: p_primary.simps p_postfix.simps p_args.simps p_term.simps p_sum_rest.simps p_cmp.simps p_expr.simps p_stmt.simps p_block.simps intro: ih)
  have 8: "p_stmt (Suc n) ts = Some rs \<Longrightarrow> p_stmt (Suc (Suc n)) ts = Some rs"
    apply (subst p_stmt.simps(2))
    apply (subst (asm) p_stmt.simps(2))
    by (auto split: list.splits token.splits option.splits if_splits elim!: option_bindE intro!: option_bindI simp del: p_primary.simps p_postfix.simps p_args.simps p_term.simps p_sum_rest.simps p_cmp.simps p_expr.simps p_stmt.simps p_block.simps intro: ih)
  have 9: "p_block (Suc n) ts = Some rb \<Longrightarrow> p_block (Suc (Suc n)) ts = Some rb"
    apply (subst p_block.simps(2))
    apply (subst (asm) p_block.simps(2))
    by (auto split: list.splits token.splits option.splits if_splits elim!: option_bindE intro!: option_bindI simp del: p_primary.simps p_postfix.simps p_args.simps p_term.simps p_sum_rest.simps p_cmp.simps p_expr.simps p_stmt.simps p_block.simps intro: ih)
  from 1 2 3 4 5 6 7 8 9 show ?case by blast
qed





lemma find_library: "find_class example_program ''utf8'' = None"
  "find_class example_program ''List'' = None"
  by code_simp+

section \<open>The fingerprint constant as the generated code reads it\<close>



















section \<open>The generated encode statements: tokens and syntax\<close>




lemma digit_not_alpha: "is_digit c \<Longrightarrow> \<not> is_alpha c"
  by (auto simp add: is_digit_def is_alpha_def)





lemma lex_NL: "lex_go Idle (NL @ t) = lex_go Idle t"
  by (simp add: NL_def is_space_def)



lemma p_mono_add:
  "(p_primary n ts = Some re \<longrightarrow> p_primary (n + k) ts = Some re)
   \<and> (p_postfix n e ts = Some re \<longrightarrow> p_postfix (n + k) e ts = Some re)
   \<and> (p_args n ts = Some ra \<longrightarrow> p_args (n + k) ts = Some ra)
   \<and> (p_term n ts = Some re \<longrightarrow> p_term (n + k) ts = Some re)
   \<and> (p_sum_rest n e ts = Some re \<longrightarrow> p_sum_rest (n + k) e ts = Some re)
   \<and> (p_cmp n ts = Some re \<longrightarrow> p_cmp (n + k) ts = Some re)
   \<and> (p_expr n ts = Some re \<longrightarrow> p_expr (n + k) ts = Some re)
   \<and> (p_stmt n ts = Some rs \<longrightarrow> p_stmt (n + k) ts = Some rs)
   \<and> (p_block n ts = Some rb \<longrightarrow> p_block (n + k) ts = Some rb)"
proof (induction k)
  case 0
  show ?case by simp
next
  case (Suc k)
  from Suc p_mono_Suc [where n = "n + k" and ts = ts and re = re and e = e and ra = ra and rs = rs and rb = rb] show ?case
    by (simp del: p_primary.simps p_postfix.simps p_args.simps p_term.simps p_sum_rest.simps
          p_cmp.simps p_expr.simps p_stmt.simps p_block.simps)
qed



lemma p_cmp_mono: "p_cmp n ts = Some r \<Longrightarrow> n \<le> m \<Longrightarrow> p_cmp m ts = Some r"
  using p_mono_add [where n = n and ts = ts and re = r and k = "m - n"] by simp

lemma p_term_mono: "p_term n ts = Some r \<Longrightarrow> n \<le> m \<Longrightarrow> p_term m ts = Some r"
  using p_mono_add [where n = n and ts = ts and re = r and k = "m - n"] by simp

lemma p_args_mono: "p_args n ts = Some r \<Longrightarrow> n \<le> m \<Longrightarrow> p_args m ts = Some r"
  using p_mono_add [where n = n and ts = ts and ra = r and k = "m - n"] by simp








lemmas p_fuel_simps =
  p_primary.simps(2) [of "pred_numeral k" for k, folded numeral_eq_Suc]






lemma p_add_numeral:
  "p_primary (m + numeral k) = p_primary (Suc (m + pred_numeral k))"
  "p_postfix (m + numeral k) = p_postfix (Suc (m + pred_numeral k))"
  "p_args (m + numeral k) = p_args (Suc (m + pred_numeral k))"
  "p_term (m + numeral k) = p_term (Suc (m + pred_numeral k))"
  "p_sum_rest (m + numeral k) = p_sum_rest (Suc (m + pred_numeral k))"
  "p_cmp (m + numeral k) = p_cmp (Suc (m + pred_numeral k))"
  "p_expr (m + numeral k) = p_expr (Suc (m + pred_numeral k))"
  "p_stmt (m + numeral k) = p_stmt (Suc (m + pred_numeral k))"
  "p_block (m + numeral k) = p_block (Suc (m + pred_numeral k))"
  by (simp_all only: numeral_eq_Suc add_Suc_right)





















lemma number_not_ident: "number_ok s \<Longrightarrow> \<not> ident_ok s"
  by (cases s) (auto simp add: number_ok_def ident_ok_def digit_not_alpha)












section \<open>Running the generated encode statements\<close>











lemma enoughI: "(\<And>m. N \<le> m \<Longrightarrow> Q m) \<Longrightarrow> enough Q"
  by (auto simp add: enough_def)

lemma enoughE: "enough Q \<Longrightarrow> (\<And>N. (\<And>m. N \<le> m \<Longrightarrow> Q m) \<Longrightarrow> R) \<Longrightarrow> R"
  by (auto simp add: enough_def)




lemma enough_const: "Q \<Longrightarrow> enough (\<lambda>m. Q)"
  by (rule enoughI [of 0])














































lemma length_be_bytes: "length (be_bytes n v) = n"
  by (simp add: be_bytes_def)

lemma length_fingerprint_bytes: "length (fingerprint_bytes ls) = 8"
  by (simp add: fingerprint_bytes_def length_be_bytes)


section \<open>Member order on the wire\<close>





section \<open>Nested structs\<close>





section \<open>Decoding starts with the fingerprint\<close>










end
